theory Spec2Isabelle
  imports Complex_Main "HOL-Library.Char_ord" "HOL-Library.List_Lexorder"
begin

section \<open>Values, dictionaries and errors\<close>

text \<open>
  A value of a cell or of a dict is empty, a string or a number (the spec's Row: "a
  scalar value (string, number, or empty)"). \<open>PNum x\<close> is an \<^verbatim>\<open>int\<close> or a finite \<^verbatim>\<open>float\<close>
  of value \<open>x\<close>: the two agree on truthiness, \<^verbatim>\<open>==\<close>, hashing and ordering. \<open>PNaN\<close> is the
  float \<^verbatim>\<open>nan\<close>, which \<^verbatim>\<open>pandas\<close> puts in the place of \<^verbatim>\<open>None\<close>; \<open>PInf True\<close> and
  \<open>PInf False\<close> are the floats \<^verbatim>\<open>inf\<close> and \<^verbatim>\<open>-inf\<close>.
\<close>

datatype pyval = PNone | PStr string | PNum real | PNaN | PInf bool

datatype error =
    TypeError | ValueError | OverflowError | AttributeError | UnboundLocalError | ApiError

text \<open>Python truthiness (\<^verbatim>\<open>if val:\<close>, \<^verbatim>\<open>not val\<close>); \<^verbatim>\<open>nan\<close> and the infinities are truthy.\<close>

fun truthy :: "pyval \<Rightarrow> bool" where
  "truthy PNone = False"
| "truthy (PStr s) = (s \<noteq> [])"
| "truthy (PNum x) = (x \<noteq> 0)"
| "truthy PNaN = True"
| "truthy (PInf p) = True"

text \<open>
  A Python \<^verbatim>\<open>float\<close>, the result of \<^verbatim>\<open>float()\<close> and of a sum of floats, and the value it is
  as the field of a dict.
\<close>

datatype pyfloat = Finite real | NaN | Inf bool

fun of_float :: "pyfloat \<Rightarrow> pyval" where
  "of_float (Finite x) = PNum x"
| "of_float NaN = PNaN"
| "of_float (Inf p) = PInf p"

text \<open>
  The float arithmetic of the Python runtime (IEEE doubles) is a parameter \<open>fl\<close> of the
  model, so that nothing is assumed about its rounding:
  \<^item> \<open>str_float\<close>: \<^verbatim>\<open>float(s)\<close> of a string (\<open>None\<close>: not a number, \<^verbatim>\<open>ValueError\<close>);
  \<^item> \<open>num_float\<close>: \<^verbatim>\<open>float(n)\<close> of a number, the double nearest to an int (\<open>None\<close>: the int
    is too large, \<^verbatim>\<open>OverflowError\<close>);
  \<^item> \<open>float_sum\<close>: what the builtin \<^verbatim>\<open>sum\<close> returns for a non-empty sequence of floats,
    added in their order from the start value 0.
\<close>

record float_ops =
  str_float :: "string \<Rightarrow> pyfloat option"
  num_float :: "real \<Rightarrow> real option"
  float_sum :: "pyfloat list \<Rightarrow> pyfloat"

text \<open>\<^verbatim>\<open>float(v)\<close>; \<^verbatim>\<open>float(None)\<close> is a \<^verbatim>\<open>TypeError\<close>.\<close>

fun py_float :: "float_ops \<Rightarrow> pyval \<Rightarrow> error + pyfloat" where
  "py_float fl PNone = Inl TypeError"
| "py_float fl (PStr s) = (case str_float fl s of None \<Rightarrow> Inl ValueError | Some y \<Rightarrow> Inr y)"
| "py_float fl (PNum x) =
     (case num_float fl x of None \<Rightarrow> Inl OverflowError | Some y \<Rightarrow> Inr (Finite y))"
| "py_float fl PNaN = Inr NaN"
| "py_float fl (PInf p) = Inr (Inf p)"

text \<open>\<^verbatim>\<open>f > 0\<close> on a float: false for \<^verbatim>\<open>nan\<close>.\<close>

fun float_pos :: "pyfloat \<Rightarrow> bool" where
  "float_pos (Finite x) = (x > 0)"
| "float_pos NaN = False"
| "float_pos (Inf p) = p"

text \<open>
  A row read from a source sheet is a dict that is only ever queried with \<^verbatim>\<open>.get\<close>:
  a map. Dicts whose item order is observed (\<^verbatim>\<open>COLUMN_MAP\<close>, the projected and the
  consolidated records) are association lists in insertion order with distinct keys.
\<close>

type_synonym row = "string \<rightharpoonup> pyval"
type_synonym pydict = "(string \<times> pyval) list"

definition row_get :: "row \<Rightarrow> string \<Rightarrow> pyval \<Rightarrow> pyval" where
  "row_get r k dflt = (case r k of None \<Rightarrow> dflt | Some v \<Rightarrow> v)"

definition dict_get :: "pydict \<Rightarrow> string \<Rightarrow> pyval \<Rightarrow> pyval" where
  "dict_get d k dflt = (case map_of d k of None \<Rightarrow> dflt | Some v \<Rightarrow> v)"

section \<open>Configuration\<close>

definition COLUMN_MAP :: "(string \<times> string) list" where
  "COLUMN_MAP =
    [(''PROMAX'', ''Units Total Price''),
     (''Job Number'', ''Job #''),
     (''Work Order'', ''Work Order''),
     (''Work Release'', ''Work Release #''),
     (''Start Date'', ''Start Date''),
     (''Scope Number'', ''Scope Number''),
     (''Foreman'', ''Foreman''),
     (''Location'', ''Location''),
     (''Crew'', ''Crew''),
     (''% of Completion'', ''% of Completion''),
     (''Weekly Reference Logged Date'', ''Weekly Reference Logged Date''),
     (''Expected Time of Completion'', ''''),
     (''Snapshot Date'', ''Snapshot Date''),
     (''Work Request #'', ''Work Request #'')]"

definition REFERENCE_SHEET_ID :: nat where
  "REFERENCE_SHEET_ID = 3239244454645636"

definition ARCHIVE_SHEET_ID :: nat where
  "ARCHIVE_SHEET_ID = 7514584211476356"

section \<open>Dates: \<^verbatim>\<open>week_start\<close> and \<^verbatim>\<open>is_past_week\<close>\<close>

text \<open>
  A \<^verbatim>\<open>datetime\<close>: the proleptic Gregorian ordinal of its date (\<^verbatim>\<open>toordinal()\<close>, day 1 is
  Monday 0001-01-01), the microseconds since midnight, and the UTC offset in
  microseconds of an aware value (\<open>None\<close>: naive, as \<^verbatim>\<open>datetime.now()\<close> is).
\<close>

record datetime =
  ordinal :: int
  tod :: nat
  utcoffset :: "int option"

text \<open>\<^verbatim>\<open>weekday()\<close>: Monday is 0, Sunday is 6.\<close>

definition weekday :: "datetime \<Rightarrow> int" where
  "weekday d = (ordinal d + 6) mod 7"

text \<open>
  \<^verbatim>\<open>week_start(date_obj)\<close> for a \<^verbatim>\<open>datetime\<close> argument, the only kind \<^verbatim>\<open>is_past_week\<close>
  passes: \<^verbatim>\<open>date_obj - timedelta(days=days_since_sunday)\<close> moves the date and keeps every
  other field. Dates within a week of \<^verbatim>\<open>datetime.min\<close>, where the subtraction overflows, are
  outside the model.
\<close>

definition week_start :: "datetime \<Rightarrow> datetime" where
  "week_start date_obj =
     (let days_since_sunday = (weekday date_obj + 1) mod 7
      in date_obj\<lparr>ordinal := ordinal date_obj - days_since_sunday\<rparr>)"

text \<open>
  \<^verbatim>\<open>a < b\<close> on datetimes: a naive and an aware value do not compare (\<^verbatim>\<open>TypeError\<close>);
  two aware values compare as instants.
\<close>

definition instant :: "datetime \<Rightarrow> int" where
  "instant d = ordinal d * 86400000000 + int (tod d)"

definition dt_less :: "datetime \<Rightarrow> datetime \<Rightarrow> error + bool" where
  "dt_less a b =
     (case (utcoffset a, utcoffset b) of
        (None, None) \<Rightarrow> Inr (instant a < instant b)
      | (Some oa, Some ob) \<Rightarrow> Inr (instant a - oa < instant b - ob)
      | _ \<Rightarrow> Inl TypeError)"

text \<open>
  \<^verbatim>\<open>is_past_week(date_str)\<close>. The parameter \<open>P\<close> is \<^verbatim>\<open>parse_date(str(date_str))\<close> of
  \<^verbatim>\<open>dateutil\<close> (\<open>None\<close>: it raises, which the function catches), \<open>now\<close> is the reading of
  \<^verbatim>\<open>datetime.now()\<close>. The comparison stands outside the \<^verbatim>\<open>try\<close>, so its \<^verbatim>\<open>TypeError\<close>
  leaves the function.
\<close>

definition is_past_week :: "(pyval \<Rightarrow> datetime option) \<Rightarrow> datetime \<Rightarrow> pyval \<Rightarrow> error + bool" where
  "is_past_week P now date_str =
     (if \<not> truthy date_str then Inr False
      else case P date_str of
             None \<Rightarrow> Inr False
           | Some date_val \<Rightarrow> dt_less date_val (week_start now))"

section \<open>Step 2 of \<^verbatim>\<open>main\<close>: the criteria filter and the projection\<close>

text \<open>
  Lines 226-233: the flag behind the counter printed as "Rows with PROMAX > 0". It
  feeds the statistics only; the decision to keep a row (below) does not read it.
\<close>

definition has_promax :: "float_ops \<Rightarrow> pyval \<Rightarrow> bool" where
  "has_promax fl promax_val =
     (if promax_val = PNone then False
      else case py_float fl promax_val of Inl e \<Rightarrow> False | Inr x \<Rightarrow> float_pos x)"

text \<open>Lines 249-251: the output row, one entry per key of \<^verbatim>\<open>COLUMN_MAP\<close>, in its order.\<close>

definition out_row :: "row \<Rightarrow> pydict" where
  "out_row r =
     map (\<lambda>(dest_col, src_col).
            (dest_col, if src_col \<noteq> [] then row_get r src_col (PStr []) else PStr []))
         COLUMN_MAP"

text \<open>
  Lines 220-254, the body of the loop over the rows of one sheet: \<open>Inl\<close> is an
  exception leaving the body, \<open>Inr None\<close> a \<^verbatim>\<open>continue\<close>, \<open>Inr (Some r)\<close> the record
  appended to \<^verbatim>\<open>records\<close>.
\<close>

definition process_row ::
  "(pyval \<Rightarrow> datetime option) \<Rightarrow> float_ops \<Rightarrow> datetime \<Rightarrow> row
     \<Rightarrow> error + pydict option" where
  "process_row P fl now r =
     (let promax_val = row_get r ''Units Total Price'' PNone;
          week_ending = row_get r ''Weekly Reference Logged Date'' PNone
      in case is_past_week P now week_ending of
           Inl e \<Rightarrow> Inl e
         | Inr has_past_date \<Rightarrow>
             if \<not> truthy promax_val \<or> \<not> has_past_date then Inr None
             else (case py_float fl promax_val of
                     Inl e \<Rightarrow> Inr None
                   | Inr x \<Rightarrow> if x = Finite 0 then Inr None else Inr (Some (out_row r))))"

text \<open>
  The loop over the rows of one sheet, inside the \<^verbatim>\<open>try\<close> of lines 215-260: an
  exception ends the sheet, and the records appended before it stay in \<^verbatim>\<open>records\<close>.
\<close>

fun pull_rows ::
  "(pyval \<Rightarrow> datetime option) \<Rightarrow> float_ops \<Rightarrow> datetime \<Rightarrow> row list
     \<Rightarrow> pydict list" where
  "pull_rows P fl now [] = []"
| "pull_rows P fl now (r # rs) =
     (case process_row P fl now r of
        Inl e \<Rightarrow> []
      | Inr None \<Rightarrow> pull_rows P fl now rs
      | Inr (Some rec) \<Rightarrow> rec # pull_rows P fl now rs)"

section \<open>Sheets and the Smartsheet client\<close>

record column =
  col_id :: nat
  title :: string

record cell =
  column_id :: nat
  cvalue :: pyval

record sheet =
  columns :: "column list"
  rows :: "cell list list"

record sheet_ref =
  sid :: nat
  sname :: string

text \<open>
  The client. \<^verbatim>\<open>Sheets.get_sheet\<close> is called at four places of the program, and a call
  may raise at one place and return at another: its result is a function of the call
  site and the sheet id. \<open>all_sheets\<close> is the list that the pagination loop of
  \<^verbatim>\<open>get_matching_sheets\<close> (lines 43-60) has accumulated; \<open>add_rows\<close> answers with the
  number of rows of \<^verbatim>\<open>response.data\<close> or raises.
\<close>

datatype call_site = Discovery | Pull | ArchiveCheck | ArchiveWrite

record client =
  get_sheet :: "call_site \<Rightarrow> nat \<Rightarrow> error + sheet"
  all_sheets :: "sheet_ref list"
  add_rows :: "nat \<Rightarrow> cell list list \<Rightarrow> error + nat"

section \<open>\<^verbatim>\<open>get_matching_sheets\<close>\<close>

definition col_titles :: "sheet \<Rightarrow> string list" where
  "col_titles sh = map title (columns sh)"

text \<open>
  Lines 64-79: the loop over the enumerated sheets. A sheet whose read raises is
  skipped by the \<^verbatim>\<open>except\<close>; the others are still visited.
\<close>

fun matching_loop :: "client \<Rightarrow> string set \<Rightarrow> sheet_ref list \<Rightarrow> sheet_ref list" where
  "matching_loop cl ref_col_set [] = []"
| "matching_loop cl ref_col_set (s # ss) =
     (case get_sheet cl Discovery (sid s) of
        Inl e \<Rightarrow> matching_loop cl ref_col_set ss
      | Inr this_sheet \<Rightarrow>
          if ref_col_set \<subseteq> set (col_titles this_sheet)
          then \<lparr>sid = sid s, sname = sname s\<rparr> # matching_loop cl ref_col_set ss
          else matching_loop cl ref_col_set ss)"

text \<open>The read of the reference sheet (line 38) is not guarded: its exception leaves the function.\<close>

definition get_matching_sheets :: "client \<Rightarrow> nat \<Rightarrow> error + sheet_ref list" where
  "get_matching_sheets cl reference_sheet_id =
     (case get_sheet cl Discovery reference_sheet_id of
        Inl e \<Rightarrow> Inl e
      | Inr ref_sheet \<Rightarrow>
          Inr (matching_loop cl (set (col_titles ref_sheet)) (all_sheets cl)))"

section \<open>\<^verbatim>\<open>get_sheet_data\<close>\<close>

text \<open>\<^verbatim>\<open>{col.id: col.title for col in sheet.columns}\<close>: a later column overwrites an earlier one.\<close>

definition id_title_map :: "column list \<Rightarrow> (nat \<rightharpoonup> string)" where
  "id_title_map cols = foldl (\<lambda>m c. m(col_id c \<mapsto> title c)) Map.empty cols"

definition row_dict :: "(nat \<rightharpoonup> string) \<Rightarrow> cell list \<Rightarrow> row" where
  "row_dict col_map cells =
     foldl (\<lambda>d c. case col_map (column_id c) of
                     None \<Rightarrow> d
                   | Some col_name \<Rightarrow> if col_name \<noteq> [] then d(col_name \<mapsto> cvalue c) else d)
           Map.empty cells"

definition get_sheet_data :: "client \<Rightarrow> nat \<Rightarrow> error + row list" where
  "get_sheet_data cl sheet_id =
     (case get_sheet cl Pull sheet_id of
        Inl e \<Rightarrow> Inl e
      | Inr sh \<Rightarrow> Inr (map (row_dict (id_title_map (columns sh))) (rows sh)))"

text \<open>
  Lines 214-260: the records one matching sheet contributes (none when its read
  raises), and the whole loop over the matching sheets.
\<close>

definition pull_sheet ::
  "(pyval \<Rightarrow> datetime option) \<Rightarrow> float_ops \<Rightarrow> datetime \<Rightarrow> client
     \<Rightarrow> sheet_ref \<Rightarrow> pydict list" where
  "pull_sheet P fl now cl s =
     (case get_sheet_data cl (sid s) of
        Inl e \<Rightarrow> []
      | Inr rs \<Rightarrow> pull_rows P fl now rs)"

definition pull_all ::
  "(pyval \<Rightarrow> datetime option) \<Rightarrow> float_ops \<Rightarrow> datetime \<Rightarrow> client
     \<Rightarrow> sheet_ref list \<Rightarrow> pydict list" where
  "pull_all P fl now cl matching_sheets = concat (map (pull_sheet P fl now cl) matching_sheets)"

section \<open>Step 3 of \<^verbatim>\<open>main\<close>: grouping and consolidation\<close>

text \<open>
  The records pass through \<^verbatim>\<open>pd.DataFrame(records)\<close> and \<^verbatim>\<open>df.iterrows()\<close> (lines 268, 292).
  The frame has one column per key, in the order of first appearance; a record without
  a key has \<^verbatim>\<open>nan\<close> there. A column that holds a string keeps its values as they are (dtype
  \<^verbatim>\<open>object\<close>), and so does a column of \<^verbatim>\<open>None\<close> only; a column of numbers, with or without
  \<^verbatim>\<open>None\<close>, becomes a numeric column, in which \<^verbatim>\<open>None\<close> is stored as \<^verbatim>\<open>nan\<close>. A number is
  stored with its value (as \<^verbatim>\<open>int64\<close> or \<^verbatim>\<open>float64\<close>; integers that a \<^verbatim>\<open>float64\<close> column would
  round are outside the model). The frame of \<^verbatim>\<open>main\<close> always has a column of strings
  ("Expected Time of Completion"), so \<^verbatim>\<open>iterrows()\<close> yields every row with the values as
  the columns store them.
\<close>

fun is_str :: "pyval \<Rightarrow> bool" where
  "is_str (PStr s) = True"
| "is_str v = False"

fun is_number :: "pyval \<Rightarrow> bool" where
  "is_number (PNum x) = True"
| "is_number PNaN = True"
| "is_number (PInf p) = True"
| "is_number v = False"

definition df_columns :: "pydict list \<Rightarrow> string list" where
  "df_columns records =
     foldl (\<lambda>cols r. cols @ filter (\<lambda>c. c \<notin> set cols) (map fst r)) [] records"

definition df_raw :: "pydict \<Rightarrow> string \<Rightarrow> pyval" where
  "df_raw r c = (case map_of r c of None \<Rightarrow> PNaN | Some v \<Rightarrow> v)"

definition numeric_column :: "pyval list \<Rightarrow> bool" where
  "numeric_column vs = (list_all (\<lambda>v. \<not> is_str v) vs \<and> list_ex is_number vs)"

definition df_value :: "pyval list \<Rightarrow> pyval \<Rightarrow> pyval" where
  "df_value col v = (if v = PNone \<and> numeric_column col then PNaN else v)"

text \<open>The rows that \<^verbatim>\<open>df.iterrows()\<close> yields for \<^verbatim>\<open>df = pd.DataFrame(records)\<close>.\<close>

definition data_frame :: "pydict list \<Rightarrow> pydict list" where
  "data_frame records =
     map (\<lambda>r. map (\<lambda>c. (c, df_value (map (\<lambda>r'. df_raw r' c) records) (df_raw r c)))
                 (df_columns records))
         records"

text \<open>\<^verbatim>\<open>df.empty\<close>: the frame has no row or no column.\<close>

definition df_empty :: "pydict list \<Rightarrow> bool" where
  "df_empty records = (records = [] \<or> df_columns records = [])"

definition unique_key_cols :: "string list" where
  "unique_key_cols = [''Job Number'', ''Foreman'', ''Work Release'']"

text \<open>\<^verbatim>\<open>tuple(rec.get(col, None) for col in cols)\<close>\<close>

definition key_of :: "string list \<Rightarrow> pydict \<Rightarrow> pyval list" where
  "key_of cols rec = map (\<lambda>col. dict_get rec col PNone) cols"

text \<open>
  The key of a row against a key of the dict \<^verbatim>\<open>grouped_records\<close> (\<^verbatim>\<open>key not in
  grouped_records\<close>): tuples are equal when their items are identical or equal. The
  items come from different rows of the frame, and a \<^verbatim>\<open>nan\<close> is a float object of its own
  in every row and unequal to every float, so a key that holds \<^verbatim>\<open>nan\<close> equals the key of
  no other row.
\<close>

definition key_eq :: "pyval list \<Rightarrow> pyval list \<Rightarrow> bool" where
  "key_eq k key = (k = key \<and> PNaN \<notin> set key)"

text \<open>
  \<^verbatim>\<open>grouped_records\<close> is a dict from key tuples to lists, in insertion order: a new key
  goes to the end, a known key gets the record appended to its list.
\<close>

fun add_to_group ::
  "pyval list \<Rightarrow> pydict \<Rightarrow> (pyval list \<times> pydict list) list \<Rightarrow> (pyval list \<times> pydict list) list" where
  "add_to_group key rec [] = [(key, [rec])]"
| "add_to_group key rec ((k, g) # rest) =
     (if key_eq k key then (k, g @ [rec]) # rest else (k, g) # add_to_group key rec rest)"

text \<open>Lines 291-296, over the rows of the frame.\<close>

definition grouped_records :: "pydict list \<Rightarrow> (pyval list \<times> pydict list) list" where
  "grouped_records df_rows =
     foldl (\<lambda>grouped rec. add_to_group (key_of unique_key_cols rec) rec grouped) [] df_rows"

text \<open>
  Line 308: \<^verbatim>\<open>sum(float(r.get('PROMAX', 0)) for r in group_records if r.get('PROMAX'))\<close>.
  The generator yields the floats of the members with a truthy value, in the order of the
  members, and a \<^verbatim>\<open>float()\<close> that raises ends it; \<^verbatim>\<open>sum\<close> of no float at all is the int 0.
\<close>

fun promax_floats :: "float_ops \<Rightarrow> pydict list \<Rightarrow> error + pyfloat list" where
  "promax_floats fl [] = Inr []"
| "promax_floats fl (r # rs) =
     (if truthy (dict_get r ''PROMAX'' PNone)
      then (case py_float fl (dict_get r ''PROMAX'' (PNum 0)) of
              Inl e \<Rightarrow> Inl e
            | Inr x \<Rightarrow>
                (case promax_floats fl rs of
                   Inl e \<Rightarrow> Inl e
                 | Inr xs \<Rightarrow> Inr (x # xs)))
      else promax_floats fl rs)"

definition py_sum :: "float_ops \<Rightarrow> pyfloat list \<Rightarrow> pyval" where
  "py_sum fl xs = (if xs = [] then PNum 0 else of_float (float_sum fl xs))"

definition total_promax :: "float_ops \<Rightarrow> pydict list \<Rightarrow> error + pyval" where
  "total_promax fl group_records =
     (case promax_floats fl group_records of
        Inl e \<Rightarrow> Inl e
      | Inr xs \<Rightarrow> Inr (py_sum fl xs))"

text \<open>
  \<^verbatim>\<open>a > b\<close> on values: strings by code points, numbers by value and false when one of
  them is \<^verbatim>\<open>nan\<close>, anything else (a string against a number, \<^verbatim>\<open>None\<close> against anything) is
  a \<^verbatim>\<open>TypeError\<close>.
\<close>

fun num_gt :: "pyval \<Rightarrow> pyval \<Rightarrow> bool" where
  "num_gt (PNum a) (PNum b) = (b < a)"
| "num_gt (PInf p) (PNum b) = p"
| "num_gt (PNum a) (PInf q) = (\<not> q)"
| "num_gt (PInf p) (PInf q) = (p \<and> \<not> q)"
| "num_gt a b = False"

fun py_gt :: "pyval \<Rightarrow> pyval \<Rightarrow> error + bool" where
  "py_gt (PStr a) (PStr b) = Inr (b < a)"
| "py_gt a b = (if is_number a \<and> is_number b then Inr (num_gt a b) else Inl TypeError)"

text \<open>
  \<^verbatim>\<open>max(group, key=...)\<close>: the builtin keeps the first item and replaces it by a later
  one only when the later key is strictly greater; an empty sequence is a \<^verbatim>\<open>ValueError\<close>.
\<close>

definition date_key :: "pydict \<Rightarrow> pyval" where
  "date_key x = dict_get x ''Weekly Reference Logged Date'' (PStr [])"

fun max_from :: "pydict \<Rightarrow> pydict list \<Rightarrow> error + pydict" where
  "max_from m [] = Inr m"
| "max_from m (x # xs) =
     (case py_gt (date_key x) (date_key m) of
        Inl e \<Rightarrow> Inl e
      | Inr True \<Rightarrow> max_from x xs
      | Inr False \<Rightarrow> max_from m xs)"

fun latest_record :: "pydict list \<Rightarrow> error + pydict" where
  "latest_record [] = Inl ValueError"
| "latest_record (x # xs) = max_from x xs"

text \<open>Lines 314-329: the dict literal of the consolidated record.\<close>

definition consolidated_record ::
  "pyval \<Rightarrow> pyval \<Rightarrow> pyval \<Rightarrow> pyval \<Rightarrow> pydict \<Rightarrow> pydict" where
  "consolidated_record total_sum job_num foreman work_release latest =
     [(''PROMAX'', total_sum),
      (''Job Number'', job_num),
      (''Foreman'', foreman),
      (''Work Release'', work_release),
      (''Work Order'', dict_get latest ''Work Order'' (PStr [])),
      (''Start Date'', dict_get latest ''Start Date'' (PStr [])),
      (''Scope Number'', dict_get latest ''Scope Number'' (PStr [])),
      (''Location'', dict_get latest ''Location'' (PStr [])),
      (''Crew'', dict_get latest ''Crew'' (PStr [])),
      (''% of Completion'', dict_get latest ''% of Completion'' (PStr [])),
      (''Weekly Reference Logged Date'', dict_get latest ''Weekly Reference Logged Date'' (PStr [])),
      (''Expected Time of Completion'', dict_get latest ''Expected Time of Completion'' (PStr [])),
      (''Snapshot Date'', dict_get latest ''Snapshot Date'' (PStr [])),
      (''Work Request #'', dict_get latest ''Work Request #'' (PStr []))]"

text \<open>
  Lines 304-331, the body of the loop over the groups. The key unpacks into three
  names (a \<^verbatim>\<open>ValueError\<close> for any other length); the sum is computed before the
  maximum.
\<close>

definition consolidate ::
  "float_ops \<Rightarrow> pyval list \<times> pydict list \<Rightarrow> error + pydict" where
  "consolidate fl kg =
     (case fst kg of
        [job_num, foreman, work_release] \<Rightarrow>
          (case total_promax fl (snd kg) of
             Inl e \<Rightarrow> Inl e
           | Inr total_sum \<Rightarrow>
               (case latest_record (snd kg) of
                  Inl e \<Rightarrow> Inl e
                | Inr latest \<Rightarrow>
                    Inr (consolidated_record total_sum job_num foreman work_release latest)))
      | _ \<Rightarrow> Inl ValueError)"

fun consolidate_all ::
  "float_ops \<Rightarrow> (pyval list \<times> pydict list) list \<Rightarrow> error + pydict list" where
  "consolidate_all fl [] = Inr []"
| "consolidate_all fl (kg # kgs) =
     (case consolidate fl kg of
        Inl e \<Rightarrow> Inl e
      | Inr rec \<Rightarrow>
          (case consolidate_all fl kgs of
             Inl e \<Rightarrow> Inl e
           | Inr recs \<Rightarrow> Inr (rec # recs)))"

section \<open>\<^verbatim>\<open>get_archive_existing_keys\<close>\<close>

definition archive_col_mapping :: "(string \<times> string) list" where
  "archive_col_mapping =
     [(''Work Request #'', ''Work Request''), (''Work Release'', ''Work Release #'')]"

text \<open>\<^verbatim>\<open>archive_col_mapping.get(col, col)\<close>\<close>

definition archive_col_name :: "string \<Rightarrow> string" where
  "archive_col_name col = (case map_of archive_col_mapping col of None \<Rightarrow> col | Some n \<Rightarrow> n)"

text \<open>\<^verbatim>\<open>{col.title: col.id for col in sheet.columns}\<close>\<close>

definition title_id_map :: "column list \<Rightarrow> (string \<rightharpoonup> nat)" where
  "title_id_map cols = foldl (\<lambda>m c. m(title c \<mapsto> col_id c)) Map.empty cols"

text \<open>Lines 113-128.\<close>

definition available_cols :: "(string \<rightharpoonup> nat) \<Rightarrow> string list \<Rightarrow> string list" where
  "available_cols col_map key_cols = filter (\<lambda>col. col_map (archive_col_name col) \<noteq> None) key_cols"

definition effective_key_cols :: "(string \<rightharpoonup> nat) \<Rightarrow> string list \<Rightarrow> string list" where
  "effective_key_cols col_map key_cols =
     (if available_cols col_map key_cols \<noteq> [] then available_cols col_map key_cols else key_cols)"

text \<open>
  \<^verbatim>\<open>row.get_column(column_id)\<close> of the SDK: the row's cell of that column, if it has
  one. Without one, \<^verbatim>\<open>.value\<close> has nothing to read and the access raises.
\<close>

definition get_column :: "cell list \<Rightarrow> nat \<Rightarrow> cell option" where
  "get_column cells cid = find (\<lambda>c. column_id c = cid) cells"

text \<open>Lines 134-141: the key values of one archive row, or the exception of a lookup.\<close>

fun key_values :: "(string \<rightharpoonup> nat) \<Rightarrow> cell list \<Rightarrow> string list \<Rightarrow> error + pyval list" where
  "key_values col_map r [] = Inr []"
| "key_values col_map r (col # cols) =
     (case (case col_map (archive_col_name col) of
              Some cid \<Rightarrow>
                (case get_column r cid of
                   None \<Rightarrow> Inl AttributeError
                 | Some c \<Rightarrow> Inr (cvalue c))
            | None \<Rightarrow> Inr PNone) of
        Inl e \<Rightarrow> Inl e
      | Inr v \<Rightarrow>
          (case key_values col_map r cols of
             Inl e \<Rightarrow> Inl e
           | Inr vs \<Rightarrow> Inr (v # vs)))"

text \<open>Lines 131-146: a row whose key raises is skipped by the inner \<^verbatim>\<open>except\<close>.\<close>

definition collect_keys ::
  "(string \<rightharpoonup> nat) \<Rightarrow> string list \<Rightarrow> cell list list \<Rightarrow> pyval list set" where
  "collect_keys col_map key_cols rs =
     foldl (\<lambda>keys r. case key_values col_map r key_cols of
                        Inl e \<Rightarrow> keys
                      | Inr key \<Rightarrow> insert key keys)
           {} rs"

definition get_archive_existing_keys ::
  "client \<Rightarrow> nat \<Rightarrow> string list \<Rightarrow> pyval list set \<times> string list" where
  "get_archive_existing_keys cl archive_sheet_id key_cols =
     (case get_sheet cl ArchiveCheck archive_sheet_id of
        Inl e \<Rightarrow> ({}, key_cols)
      | Inr sh \<Rightarrow>
          (let col_map = title_id_map (columns sh);
               eff = effective_key_cols col_map key_cols
           in (collect_keys col_map eff (rows sh), eff)))"

section \<open>Step 4 of \<^verbatim>\<open>main\<close>: the check against the archive\<close>

text \<open>
  Lines 353-361: the records whose key is not in the archive's key set. The cells of the
  archive are JSON values, none of them \<^verbatim>\<open>nan\<close>, so a key that holds \<^verbatim>\<open>nan\<close> is in no key
  set.
\<close>

definition new_consolidated_rows ::
  "pyval list set \<Rightarrow> string list \<Rightarrow> pydict list \<Rightarrow> pydict list" where
  "new_consolidated_rows archive_keys eff_cols consolidated_records =
     filter (\<lambda>rec. key_of eff_cols rec \<notin> archive_keys) consolidated_records"

definition dedup_against_archive :: "client \<Rightarrow> pydict list \<Rightarrow> pydict list" where
  "dedup_against_archive cl consolidated_records =
     (case get_archive_existing_keys cl ARCHIVE_SHEET_ID unique_key_cols of
        (archive_keys, eff_cols) \<Rightarrow> new_consolidated_rows archive_keys eff_cols consolidated_records)"

text \<open>
  Lines 350-384: the binding of the local name \<^verbatim>\<open>new_rows\<close> after the \<^verbatim>\<open>try\<close>. The name
  is assigned at line 377, inside \<^verbatim>\<open>if new_consolidated_rows:\<close>, and in the handler of
  line 379; \<^verbatim>\<open>get_archive_existing_keys\<close> returns on every path and the loop does not
  raise, so the handler does not run. \<open>None\<close>: the name is unbound.
\<close>

definition new_rows_binding :: "client \<Rightarrow> pydict list \<Rightarrow> pydict list option" where
  "new_rows_binding cl consolidated_records =
     (let new = dedup_against_archive cl consolidated_records
      in if new \<noteq> [] then Some new else None)"

section \<open>Step 5 of \<^verbatim>\<open>main\<close>: the write\<close>

text \<open>Lines 430-435: the cells of one record, in the order of its items.\<close>

definition row_cells :: "(string \<rightharpoonup> nat) \<Rightarrow> pydict \<Rightarrow> cell list" where
  "row_cells col_map rec =
     concat (map (\<lambda>(col, val).
                    if truthy val
                    then (case col_map (archive_col_name col) of
                            Some cid \<Rightarrow> [\<lparr>column_id = cid, cvalue = val\<rparr>]
                          | None \<Rightarrow> [])
                    else [])
                 rec)"

text \<open>
  \<^verbatim>\<open>smartsheet.models.Row(cells=cells, to_bottom=True)\<close> of line 436. The constructor of the
  SDK's \<^verbatim>\<open>Row\<close> is \<^verbatim>\<open>__init__(self, props=None, base_obj=None)\<close>: it has no keyword \<^verbatim>\<open>cells\<close>
  or \<^verbatim>\<open>to_bottom\<close>, and the call raises \<^verbatim>\<open>TypeError\<close> whatever the cells are.
\<close>

definition sdk_Row :: "cell list \<Rightarrow> error + cell list" where
  "sdk_Row cells = Inl TypeError"

text \<open>Lines 428-436: the loop over the new records; an exception of the constructor ends it.\<close>

fun new_sheet_rows :: "(string \<rightharpoonup> nat) \<Rightarrow> pydict list \<Rightarrow> error + cell list list" where
  "new_sheet_rows col_map [] = Inr []"
| "new_sheet_rows col_map (rec # recs) =
     (case sdk_Row (row_cells col_map rec) of
        Inl e \<Rightarrow> Inl e
      | Inr sheet_row \<Rightarrow>
          (case new_sheet_rows col_map recs of
             Inl e \<Rightarrow> Inl e
           | Inr sheet_rows \<Rightarrow> Inr (sheet_row # sheet_rows)))"

datatype outcome =
    DiscoveryFailed error
  | NoRecords
  | NoNewRows
  | DryRunReport "pydict list"
  | Appended "cell list list" nat
  | AppendFailed error
  | Uncaught error

text \<open>
  Lines 406-442: the live write. Every exception is caught at line 441 and reported;
  \<^verbatim>\<open>add_rows\<close> is called only when all rows have been built.
\<close>

definition append_to_archive :: "client \<Rightarrow> pydict list \<Rightarrow> outcome" where
  "append_to_archive cl new_rows =
     (case get_sheet cl ArchiveWrite ARCHIVE_SHEET_ID of
        Inl e \<Rightarrow> AppendFailed e
      | Inr archive_sheet \<Rightarrow>
          (case new_sheet_rows (title_id_map (columns archive_sheet)) new_rows of
             Inl e \<Rightarrow> AppendFailed e
           | Inr sheet_rows \<Rightarrow>
               (case add_rows cl ARCHIVE_SHEET_ID sheet_rows of
                  Inl e \<Rightarrow> AppendFailed e
                | Inr n \<Rightarrow> Appended sheet_rows n)))"

definition archive_operation :: "bool \<Rightarrow> client \<Rightarrow> pydict list \<Rightarrow> outcome" where
  "archive_operation dry_run cl new_rows =
     (if dry_run then DryRunReport new_rows else append_to_archive cl new_rows)"

section \<open>\<^verbatim>\<open>main\<close>\<close>

text \<open>
  The run, with the API token set and the client constructed. \<open>dry_run\<close> is the
  constant \<^verbatim>\<open>DRY_RUN\<close>; \<open>now\<close> is one reading of the clock for the whole run. Each
  outcome names the place where \<^verbatim>\<open>main\<close> ends: \<open>NoRecords\<close> is the \<^verbatim>\<open>return\<close> of line
  271, \<open>NoNewRows\<close> that of line 388, \<open>Uncaught\<close> an exception that leaves \<^verbatim>\<open>main\<close>.
\<close>

definition main ::
  "(pyval \<Rightarrow> datetime option) \<Rightarrow> float_ops \<Rightarrow> datetime \<Rightarrow> bool \<Rightarrow> client
     \<Rightarrow> outcome" where
  "main P fl now dry_run cl =
     (case get_matching_sheets cl REFERENCE_SHEET_ID of
        Inl e \<Rightarrow> DiscoveryFailed e
      | Inr matching_sheets \<Rightarrow>
          (let records = pull_all P fl now cl matching_sheets
           in if df_empty records then NoRecords
              else (case consolidate_all fl (grouped_records (data_frame records)) of
                      Inl e \<Rightarrow> Uncaught e
                    | Inr consolidated_records \<Rightarrow>
                        (case new_rows_binding cl consolidated_records of
                           None \<Rightarrow> Uncaught UnboundLocalError
                         | Some new_rows \<Rightarrow>
                             if new_rows = [] then NoNewRows
                             else archive_operation dry_run cl new_rows))))"

section \<open>Notions of the specification\<close>

text \<open>
  The effective key columns in the words of claim C3: "exactly those Group Key columns
  whose remapped archive-side name exists in the archive schema".
\<close>

definition claimed_effective_cols :: "sheet \<Rightarrow> string list" where
  "claimed_effective_cols sh =
     filter (\<lambda>col. archive_col_name col \<in> set (col_titles sh)) unique_key_cols"

text \<open>
  The monetary value of a member as claim C4 counts it: the number its PROMAX field
  parses as, and 0 when the field is missing or not numeric.
\<close>

definition promax_contribution :: "float_ops \<Rightarrow> pydict \<Rightarrow> pyfloat" where
  "promax_contribution fl r =
     (case py_float fl (dict_get r ''PROMAX'' PNone) of Inl e \<Rightarrow> Finite 0 | Inr x \<Rightarrow> x)"

text \<open>The non-summed fields that claim C6 lists.\<close>

definition copied_fields :: "string list" where
  "copied_fields =
     [''Work Order'', ''Start Date'', ''Scope Number'', ''Location'', ''Crew'',
      ''% of Completion'', ''Weekly Reference Logged Date'', ''Expected Time of Completion'',
      ''Snapshot Date'', ''Work Request #'']"

text \<open>A number that is not \<^verbatim>\<open>nan\<close>.\<close>

fun is_num :: "pyval \<Rightarrow> bool" where
  "is_num (PNum x) = True"
| "is_num v = False"

section \<open>Concrete inputs\<close>

text \<open>
  Inputs at which the definitions above are evaluated below. Dates: 2023-09-01 is day
  738764, 2023-12-25 day 738879, 2024-01-01 day 738886, 2024-01-03 day 738888,
  2024-01-07 (a Sunday) day 738892, 2024-01-10 (a Wednesday) day 738895.
\<close>

definition dt :: "int \<Rightarrow> nat \<Rightarrow> datetime" where
  "dt d t = \<lparr>ordinal = d, tod = t, utcoffset = None\<rparr>"

text \<open>The clock: Wednesday 2024-01-10, 15:30:00.\<close>

definition now0 :: datetime where
  "now0 = dt 738895 55800000000"

text \<open>A date parser that knows five date texts (midnight of the day each) and the number 20240101.\<close>

definition P0 :: "pyval \<Rightarrow> datetime option" where
  "P0 v =
     (if v = PStr ''2024-01-03'' then Some (dt 738888 0)
      else if v = PStr ''2024-01-07'' then Some (dt 738892 0)
      else if v = PStr ''9/1/2023'' then Some (dt 738764 0)
      else if v = PStr ''12/25/2023'' then Some (dt 738879 0)
      else if v = PNum 20240101 then Some (dt 738886 0)
      else None)"

text \<open>
  A float arithmetic without rounding: it agrees with IEEE doubles on the small integers
  of the inputs below and on their sums (on finite floats it adds exactly).
\<close>

fun finite_part :: "pyfloat \<Rightarrow> real" where
  "finite_part (Finite x) = x"
| "finite_part NaN = 0"
| "finite_part (Inf p) = 0"

definition exact_sum :: "pyfloat list \<Rightarrow> pyfloat" where
  "exact_sum xs = (if NaN \<in> set xs then NaN else Finite (sum_list (map finite_part xs)))"

definition fl0 :: float_ops where
  "fl0 =
     \<lparr>str_float = (\<lambda>s. if s = ''150'' then Some (Finite 150) else None),
      num_float = Some,
      float_sum = exact_sum\<rparr>"

text \<open>A source row with a negative price and a date of the week before.\<close>

definition row_neg :: row where
  "row_neg =
     [''Units Total Price'' \<mapsto> PNum (- 5),
      ''Weekly Reference Logged Date'' \<mapsto> PStr ''2024-01-03'']"

text \<open>Columns and cells numbered from a first id on.\<close>

fun number_cols :: "nat \<Rightarrow> string list \<Rightarrow> column list" where
  "number_cols n [] = []"
| "number_cols n (t # ts) = \<lparr>col_id = n, title = t\<rparr> # number_cols (Suc n) ts"

fun number_cells :: "nat \<Rightarrow> pyval list \<Rightarrow> cell list" where
  "number_cells n [] = []"
| "number_cells n (v # vs) = \<lparr>column_id = n, cvalue = v\<rparr> # number_cells (Suc n) vs"

definition src_titles :: "string list" where
  "src_titles =
     [''Units Total Price'', ''Job #'', ''Foreman'', ''Work Release #'',
      ''Weekly Reference Logged Date'', ''Work Order'']"

text \<open>The reference sheet, and three enumerated sheets: one with an extra column and one
  row (price 150, job J1, foreman A, release WR1, dated 2024-01-03), one that lacks
  columns, and one (id 12) whose read raises.\<close>

definition ref_sheet0 :: sheet where
  "ref_sheet0 = \<lparr>columns = number_cols 1 src_titles, rows = []\<rparr>"

definition sheet_extra :: sheet where
  "sheet_extra =
     \<lparr>columns = number_cols 1 (src_titles @ [''Notes'']),
      rows = [number_cells 1
                [PNum 150, PStr ''J1'', PStr ''A'', PStr ''WR1'', PStr ''2024-01-03'',
                 PStr ''WO-1'', PStr ''checked'']]\<rparr>"

definition sheet_missing :: sheet where
  "sheet_missing = \<lparr>columns = number_cols 1 [''Job #'', ''Foreman''], rows = []\<rparr>"

definition s_extra :: sheet_ref where
  "s_extra = \<lparr>sid = 11, sname = ''Week 1''\<rparr>"

definition s_broken :: sheet_ref where
  "s_broken = \<lparr>sid = 12, sname = ''Week 2''\<rparr>"

definition s_missing :: sheet_ref where
  "s_missing = \<lparr>sid = 13, sname = ''Notes''\<rparr>"

text \<open>An archive that holds the group (J1, A, WR1).\<close>

definition archive_titles :: "string list" where
  "archive_titles = [''Job Number'', ''Foreman'', ''Work Release #'', ''PROMAX'']"

definition archive0 :: sheet where
  "archive0 =
     \<lparr>columns = number_cols 1 archive_titles,
      rows = [number_cells 1 [PStr ''J1'', PStr ''A'', PStr ''WR1'', PNum 150]]\<rparr>"

definition cl0 :: client where
  "cl0 =
     \<lparr>get_sheet = (\<lambda>site i.
         if i = REFERENCE_SHEET_ID then Inr ref_sheet0
         else if i = 11 then Inr sheet_extra
         else if i = 13 then Inr sheet_missing
         else if i = ARCHIVE_SHEET_ID then Inr archive0
         else Inl ApiError),
      all_sheets = [s_extra, s_broken, s_missing],
      add_rows = (\<lambda>i rs. Inr (length rs))\<rparr>"

text \<open>The row of \<open>sheet_extra\<close> as \<^verbatim>\<open>get_sheet_data\<close> returns it, its projection, and the
  consolidated records of three groups that share that latest member.\<close>

definition row_j1 :: row where
  "row_j1 =
     [''Units Total Price'' \<mapsto> PNum 150, ''Job #'' \<mapsto> PStr ''J1'', ''Foreman'' \<mapsto> PStr ''A'',
      ''Work Release #'' \<mapsto> PStr ''WR1'', ''Weekly Reference Logged Date'' \<mapsto> PStr ''2024-01-03'',
      ''Work Order'' \<mapsto> PStr ''WO-1'', ''Notes'' \<mapsto> PStr ''checked'']"

definition rec_j1 :: pydict where
  "rec_j1 = consolidated_record (PNum 150) (PStr ''J1'') (PStr ''A'') (PStr ''WR1'') (out_row row_j1)"

definition rec_j1_wr2 :: pydict where
  "rec_j1_wr2 = consolidated_record (PNum 150) (PStr ''J1'') (PStr ''A'') (PStr ''WR2'') (out_row row_j1)"

definition rec_j2 :: pydict where
  "rec_j2 = consolidated_record (PNum 150) (PStr ''J2'') (PStr ''A'') (PStr ''WR1'') (out_row row_j1)"

text \<open>An archive without the column "Work Release #", and one without any key column.\<close>

definition archive_narrow :: sheet where
  "archive_narrow =
     \<lparr>columns = number_cols 1 [''Job Number'', ''Foreman'', ''PROMAX''],
      rows = [number_cells 1 [PStr ''J1'', PStr ''A'', PNum 150]]\<rparr>"

definition archive_nokeys :: sheet where
  "archive_nokeys =
     \<lparr>columns = number_cols 1 [''PROMAX''], rows = [number_cells 1 [PNum 150]]\<rparr>"

definition with_archive :: "(error + sheet) \<Rightarrow> client \<Rightarrow> client" where
  "with_archive a cl =
     cl\<lparr>get_sheet := (\<lambda>site i. if i = ARCHIVE_SHEET_ID then a else get_sheet cl site i)\<rparr>"

text \<open>The client \<open>cl0\<close> with an archive whose read raises in the check of step 4 and
  returns in the write of step 5.\<close>

definition cl_check_fails :: client where
  "cl_check_fails =
     cl0\<lparr>get_sheet := (\<lambda>site i. if site = ArchiveCheck \<and> i = ARCHIVE_SHEET_ID then Inl ApiError
                                 else get_sheet cl0 site i)\<rparr>"

text \<open>
  A sheet with two rows of the group (J1, A, WR1), prices 100 and 50, dated 9/1/2023 and
  12/25/2023, and one where the second row carries the number 20240101 as its date.
\<close>

definition sheet_two :: sheet where
  "sheet_two =
     \<lparr>columns = number_cols 1 src_titles,
      rows = [number_cells 1
                [PNum 100, PStr ''J1'', PStr ''A'', PStr ''WR1'', PStr ''9/1/2023'', PStr ''WO-1''],
              number_cells 1
                [PNum 50, PStr ''J1'', PStr ''A'', PStr ''WR1'', PStr ''12/25/2023'', PStr ''WO-2'']]\<rparr>"

definition sheet_mixed :: sheet where
  "sheet_mixed =
     \<lparr>columns = number_cols 1 src_titles,
      rows = [number_cells 1
                [PNum 100, PStr ''J1'', PStr ''A'', PStr ''WR1'', PStr ''2024-01-03'', PStr ''WO-1''],
              number_cells 1
                [PNum 50, PStr ''J1'', PStr ''A'', PStr ''WR1'', PNum 20240101, PStr ''WO-2'']]\<rparr>"

definition with_source :: "sheet \<Rightarrow> client \<Rightarrow> client" where
  "with_source sh cl =
     cl\<lparr>get_sheet := (\<lambda>site i. if i = 11 then Inr sh else get_sheet cl site i)\<rparr>"

definition row_of :: "pyval \<Rightarrow> pyval \<Rightarrow> string \<Rightarrow> row" where
  "row_of price date order_no =
     [''Units Total Price'' \<mapsto> price, ''Job #'' \<mapsto> PStr ''J1'', ''Foreman'' \<mapsto> PStr ''A'',
      ''Work Release #'' \<mapsto> PStr ''WR1'', ''Weekly Reference Logged Date'' \<mapsto> date,
      ''Work Order'' \<mapsto> PStr order_no]"

definition key_j1 :: "pyval list" where
  "key_j1 = [PStr ''J1'', PStr ''A'', PStr ''WR1'']"

text \<open>The projected rows of \<open>sheet_two\<close> and \<open>sheet_mixed\<close>.\<close>

definition rec_a :: pydict where
  "rec_a = out_row (row_of (PNum 100) (PStr ''9/1/2023'') ''WO-1'')"

definition rec_b :: pydict where
  "rec_b = out_row (row_of (PNum 50) (PStr ''12/25/2023'') ''WO-2'')"

definition rec_s :: pydict where
  "rec_s = out_row (row_of (PNum 100) (PStr ''2024-01-03'') ''WO-1'')"

definition rec_n :: pydict where
  "rec_n = out_row (row_of (PNum 50) (PNum 20240101) ''WO-2'')"

text \<open>
  IEEE double arithmetic at \<open>2^53 + 1\<close>: \<^verbatim>\<open>float(9007199254740993)\<close> is
  \<^verbatim>\<open>9007199254740992.0\<close>, the nearest double. The sheet \<open>sheet_big\<close> has one row with
  that price.
\<close>

definition fl53 :: float_ops where
  "fl53 = fl0\<lparr>num_float := (\<lambda>x. if x = 9007199254740993 then Some 9007199254740992 else Some x)\<rparr>"

definition sheet_big :: sheet where
  "sheet_big =
     \<lparr>columns = number_cols 1 src_titles,
      rows = [number_cells 1
                [PNum 9007199254740993, PStr ''J1'', PStr ''A'', PStr ''WR1'',
                 PStr ''2024-01-03'', PStr ''WO-1'']]\<rparr>"

definition rec_big :: pydict where
  "rec_big = out_row (row_of (PNum 9007199254740993) (PStr ''2024-01-03'') ''WO-1'')"

text \<open>
  A sheet whose two rows of the group (J1, A, WR1) cancel (prices 100 and -100), an
  archive without that group, and an archive with a row that lacks the cell of the
  column "Foreman".
\<close>

definition sheet_cancel :: sheet where
  "sheet_cancel =
     \<lparr>columns = number_cols 1 src_titles,
      rows = [number_cells 1
                [PNum 100, PStr ''J1'', PStr ''A'', PStr ''WR1'', PStr ''2024-01-03'', PStr ''WO-1''],
              number_cells 1
                [PNum (- 100), PStr ''J1'', PStr ''A'', PStr ''WR1'', PStr ''2024-01-03'', PStr ''WO-2'']]\<rparr>"

definition rec_p :: pydict where
  "rec_p = out_row (row_of (PNum 100) (PStr ''2024-01-03'') ''WO-1'')"

definition rec_m :: pydict where
  "rec_m = out_row (row_of (PNum (- 100)) (PStr ''2024-01-03'') ''WO-2'')"

definition rec_zero :: pydict where
  "rec_zero = consolidated_record (PNum 0) (PStr ''J1'') (PStr ''A'') (PStr ''WR1'') rec_p"

definition archive_other :: sheet where
  "archive_other =
     \<lparr>columns = number_cols 1 archive_titles,
      rows = [number_cells 1 [PStr ''J9'', PStr ''B'', PStr ''WR9'', PNum 10]]\<rparr>"

definition cl_cancel :: client where
  "cl_cancel = with_archive (Inr archive_other) (with_source sheet_cancel cl0)"

definition row_without_foreman :: "cell list" where
  "row_without_foreman =
     [\<lparr>column_id = 1, cvalue = PStr ''J2''\<rparr>, \<lparr>column_id = 3, cvalue = PStr ''WR2''\<rparr>]"

definition archive_rowerr :: sheet where
  "archive_rowerr =
     \<lparr>columns = number_cols 1 archive_titles,
      rows = [row_without_foreman,
              number_cells 1 [PStr ''J1'', PStr ''A'', PStr ''WR1'', PNum 150]]\<rparr>"

text \<open>
  Three projected rows that differ in their "Job #" cell only: the number 7, and twice an
  empty cell (\<^verbatim>\<open>None\<close>).
\<close>

definition row_job :: "pyval \<Rightarrow> row" where
  "row_job job =
     [''Units Total Price'' \<mapsto> PNum 100, ''Job #'' \<mapsto> job, ''Foreman'' \<mapsto> PStr ''A'',
      ''Work Release #'' \<mapsto> PStr ''WR1'', ''Weekly Reference Logged Date'' \<mapsto> PStr ''2024-01-03'']"

section \<open>Properties of \<^verbatim>\<open>week_start\<close> and \<^verbatim>\<open>is_past_week\<close>\<close>

lemma week_start_is_sunday: "weekday (week_start d) = 6"
  unfolding week_start_def weekday_def Let_def by simp presburger

lemma week_start_most_recent:
  "ordinal (week_start d) \<le> ordinal d \<and> ordinal d < ordinal (week_start d) + 7"
  unfolding week_start_def weekday_def Let_def by simp

lemma week_start_keeps_time: "tod (week_start d) = tod d \<and> utcoffset (week_start d) = utcoffset d"
  unfolding week_start_def Let_def by simp

lemma week_start_on_sunday: "weekday d = 6 \<Longrightarrow> week_start d = d"
  unfolding week_start_def weekday_def Let_def by simp

text \<open>
  C5. The claim: the week boundary is the most recent Sunday at or before "now" at time
  00:00. The code moves the date of "now" back to that Sunday and keeps the time of day:
  with the clock at Wednesday 2024-01-10 15:30 the boundary is Sunday 2024-01-07 15:30,
  not 2024-01-07 00:00, and the date text 2024-01-07, a day of the current week, counts as
  earlier than the boundary.
\<close>

theorem week_start_boundary_not_midnight:
  "week_start now0 = dt 738892 55800000000
   \<and> week_start now0 \<noteq> dt 738892 0
   \<and> is_past_week P0 now0 (PStr ''2024-01-07'') = Inr True"
  by (simp add: week_start_def weekday_def now0_def dt_def is_past_week_def P0_def
      dt_less_def instant_def)

section \<open>Properties of the criteria filter\<close>

lemma process_row_keeps:
  "process_row P fl now r = Inr (Some rec) \<longleftrightarrow>
     rec = out_row r
     \<and> is_past_week P now (row_get r ''Weekly Reference Logged Date'' PNone) = Inr True
     \<and> truthy (row_get r ''Units Total Price'' PNone)
     \<and> (\<exists>x. py_float fl (row_get r ''Units Total Price'' PNone) = Inr x \<and> x \<noteq> Finite 0)"
  unfolding process_row_def Let_def
  by (auto split: sum.splits)

text \<open>
  C2. The claim: a row is retained if and only if its price parses as a number strictly
  greater than 0 and its date is earlier than the week boundary; negative prices are
  excluded. The code keeps every row with a truthy price that parses to a number other
  than 0: the row with price -5 and date 2024-01-03 is retained on 2024-01-10, although
  the flag \<open>has_promax\<close> computed for the same row (the test \<^verbatim>\<open>float(promax_val) > 0\<close> of
  the statistics) is false.
\<close>

theorem negative_price_row_is_retained:
  "process_row P0 fl0 now0 row_neg = Inr (Some (out_row row_neg))
   \<and> has_promax fl0 (row_get row_neg ''Units Total Price'' PNone) = False
   \<and> pull_rows P0 fl0 now0 [row_neg] = [out_row row_neg]"
  by (simp add: process_row_def row_get_def row_neg_def is_past_week_def P0_def
      week_start_def weekday_def now0_def dt_def dt_less_def instant_def has_promax_def fl0_def)

theorem negative_price_row_is_retained_witness:
  "pull_rows P0 fl0 now0 [row_neg] \<noteq> []"
  using negative_price_row_is_retained by simp


lemmas sheet_defs = cl0_def s_extra_def s_broken_def s_missing_def ref_sheet0_def sheet_extra_def
  sheet_missing_def src_titles_def archive0_def archive_titles_def REFERENCE_SHEET_ID_def
  ARCHIVE_SHEET_ID_def col_titles_def

lemmas archive_defs = get_archive_existing_keys_def title_id_map_def effective_key_cols_def
  available_cols_def unique_key_cols_def archive_col_name_def archive_col_mapping_def
  collect_keys_def get_column_def

section \<open>Properties of the schema matcher\<close>

lemma matching_loop_filter:
  "matching_loop cl R ss =
     filter (\<lambda>s. case get_sheet cl Discovery (sid s) of
                    Inl e \<Rightarrow> False
                  | Inr this_sheet \<Rightarrow> R \<subseteq> set (col_titles this_sheet)) ss"
  by (induction ss) (auto split: sum.splits)

text \<open>
  C7. With the reference sheet read, an enumerated sheet whose schema can be read is in
  \<^verbatim>\<open>matching_sheets\<close> if and only if the reference column set is a subset of its column
  set; a sheet whose read raises is not in it, and neither case stops the loop: the
  statement holds for every enumerated sheet, whatever happens at the others.
\<close>

theorem matching_sheets_superset_test:
  assumes "get_sheet cl Discovery reference_sheet_id = Inr ref_sheet"
      and "s \<in> set (all_sheets cl)"
  shows "\<exists>ms. get_matching_sheets cl reference_sheet_id = Inr ms \<and>
           (case get_sheet cl Discovery (sid s) of
              Inr this_sheet \<Rightarrow>
                (s \<in> set ms \<longleftrightarrow> set (col_titles ref_sheet) \<subseteq> set (col_titles this_sheet))
            | Inl e \<Rightarrow> s \<notin> set ms)"
  using assms by (simp add: get_matching_sheets_def matching_loop_filter split: sum.splits)

theorem matching_sheets_superset_test_witness:
  "\<exists>ms. get_matching_sheets cl0 REFERENCE_SHEET_ID = Inr ms
        \<and> s_extra \<in> set ms \<and> s_broken \<notin> set ms \<and> s_missing \<notin> set ms"
proof -
  have ref: "get_sheet cl0 Discovery REFERENCE_SHEET_ID = Inr ref_sheet0"
    by (simp add: cl0_def)
  have a: "s_extra \<in> set (all_sheets cl0)" and b: "s_broken \<in> set (all_sheets cl0)"
    and c: "s_missing \<in> set (all_sheets cl0)"
    by (simp_all add: cl0_def)
  have ra: "get_sheet cl0 Discovery (sid s_extra) = Inr sheet_extra"
    and rb: "get_sheet cl0 Discovery (sid s_broken) = Inl ApiError"
    and rc: "get_sheet cl0 Discovery (sid s_missing) = Inr sheet_missing"
    by (simp_all add: sheet_defs)
  have sub: "set (col_titles ref_sheet0) \<subseteq> set (col_titles sheet_extra)"
    and nsub: "\<not> set (col_titles ref_sheet0) \<subseteq> set (col_titles sheet_missing)"
    by (simp_all add: sheet_defs)
  from matching_sheets_superset_test [OF ref a] matching_sheets_superset_test [OF ref b]
    matching_sheets_superset_test [OF ref c]
  show ?thesis
    by (auto simp: ra rb rc sub nsub)
qed

section \<open>Properties of the archive check\<close>

lemma dom_fold_title_id:
  "dom (foldl (\<lambda>m c. m(title c \<mapsto> col_id c)) m cols) = dom m \<union> title ` set cols"
  by (induction cols arbitrary: m) auto

lemma dom_title_id_map: "dom (title_id_map cols) = set (map title cols)"
  by (simp add: title_id_map_def dom_fold_title_id)

lemma available_cols_titles:
  "available_cols (title_id_map (columns sh)) key_cols =
     filter (\<lambda>col. archive_col_name col \<in> set (col_titles sh)) key_cols"
proof -
  have "\<And>t. (title_id_map (columns sh) t \<noteq> None) = (t \<in> set (col_titles sh))"
    using dom_title_id_map [of "columns sh"] by (auto simp: col_titles_def dom_def)
  then show ?thesis by (simp add: available_cols_def)
qed

lemma fold_collect_keys:
  "k \<in> foldl (\<lambda>keys r. case key_values col_map r key_cols of
                          Inl e \<Rightarrow> keys
                        | Inr key \<Rightarrow> insert key keys) S rs
   \<longleftrightarrow> k \<in> S \<or> (\<exists>r\<in>set rs. key_values col_map r key_cols = Inr k)"
  by (induction rs arbitrary: S) (auto split: sum.splits)

lemma collect_keys_iff:
  "k \<in> collect_keys col_map key_cols rs \<longleftrightarrow> (\<exists>r\<in>set rs. key_values col_map r key_cols = Inr k)"
  by (simp add: collect_keys_def fold_collect_keys)

text \<open>
  C1. For every list of consolidated records and every archive whose key set (as
  \<^verbatim>\<open>get_archive_existing_keys\<close> returns it, with its effective key columns) contains the
  projection of each of the records, the deduplication loop retains no record.
\<close>

theorem dedup_idempotent:
  assumes "get_archive_existing_keys cl ARCHIVE_SHEET_ID unique_key_cols = (archive_keys, eff_cols)"
      and "\<forall>rec\<in>set recs. key_of eff_cols rec \<in> archive_keys"
  shows "new_consolidated_rows archive_keys eff_cols recs = [] \<and> dedup_against_archive cl recs = []"
  using assms by (simp add: dedup_against_archive_def new_consolidated_rows_def)

lemma keys0:
  "get_archive_existing_keys cl0 ARCHIVE_SHEET_ID unique_key_cols =
     ({[PStr ''J1'', PStr ''A'', PStr ''WR1'']}, unique_key_cols)"
  by (simp add: archive_defs sheet_defs)

lemma key_rec_j1: "key_of unique_key_cols rec_j1 = [PStr ''J1'', PStr ''A'', PStr ''WR1'']"
  by (simp add: key_of_def unique_key_cols_def rec_j1_def consolidated_record_def dict_get_def)

theorem dedup_idempotent_witness:
  "get_archive_existing_keys cl0 ARCHIVE_SHEET_ID unique_key_cols =
     ({[PStr ''J1'', PStr ''A'', PStr ''WR1'']}, unique_key_cols)
   \<and> key_of unique_key_cols rec_j1 = [PStr ''J1'', PStr ''A'', PStr ''WR1'']
   \<and> dedup_against_archive cl0 [rec_j1] = []"
proof -
  have h: "\<forall>rec\<in>set [rec_j1]. key_of unique_key_cols rec \<in> {[PStr ''J1'', PStr ''A'', PStr ''WR1'']}"
    by (simp add: key_rec_j1)
  from dedup_idempotent [OF keys0 h] show ?thesis
    by (simp add: keys0 key_rec_j1)
qed

text \<open>
  C3, as amended. With the archive read, the effective key columns are the Group Key
  columns whose archive-side name is a column title of the archive, or all three Group
  Key columns when none of them is; the key set holds the key of every archive row whose
  key cells can all be read; and a record is retained if and only if its projection
  through the effective key columns is not in the key set.
\<close>

theorem dedup_by_effective_key:
  assumes "get_sheet cl ArchiveCheck ARCHIVE_SHEET_ID = Inr sh"
  shows "\<exists>archive_keys eff_cols.
           get_archive_existing_keys cl ARCHIVE_SHEET_ID unique_key_cols = (archive_keys, eff_cols)
         \<and> eff_cols =
             (let avail = filter (\<lambda>col. archive_col_name col \<in> set (col_titles sh)) unique_key_cols
              in if avail = [] then unique_key_cols else avail)
         \<and> (\<forall>k. k \<in> archive_keys \<longleftrightarrow>
                  (\<exists>r\<in>set (rows sh). key_values (title_id_map (columns sh)) r eff_cols = Inr k))
         \<and> (\<forall>rec. rec \<in> set (dedup_against_archive cl recs) \<longleftrightarrow>
                  rec \<in> set recs \<and> key_of eff_cols rec \<notin> archive_keys)"
  using assms
  by (simp add: get_archive_existing_keys_def dedup_against_archive_def new_consolidated_rows_def
      effective_key_cols_def available_cols_titles collect_keys_iff Let_def)

lemmas narrow_defs = with_archive_def archive_narrow_def archive_nokeys_def

theorem dedup_by_effective_key_witness:
  "get_sheet (with_archive (Inr archive_narrow) cl0) ArchiveCheck ARCHIVE_SHEET_ID = Inr archive_narrow
   \<and> get_archive_existing_keys (with_archive (Inr archive_narrow) cl0) ARCHIVE_SHEET_ID unique_key_cols
       = ({[PStr ''J1'', PStr ''A'']}, [''Job Number'', ''Foreman''])
   \<and> dedup_against_archive (with_archive (Inr archive_narrow) cl0) [rec_j1, rec_j1_wr2, rec_j2] = [rec_j2]"
proof -
  let ?cl = "with_archive (Inr archive_narrow) cl0"
  have h: "get_sheet ?cl ArchiveCheck ARCHIVE_SHEET_ID = Inr archive_narrow"
    by (simp add: with_archive_def)
  have k: "get_archive_existing_keys ?cl ARCHIVE_SHEET_ID unique_key_cols
       = ({[PStr ''J1'', PStr ''A'']}, [''Job Number'', ''Foreman''])"
    by (simp add: archive_defs narrow_defs ARCHIVE_SHEET_ID_def)
  have keys: "key_of [''Job Number'', ''Foreman''] rec_j1 = [PStr ''J1'', PStr ''A'']"
    "key_of [''Job Number'', ''Foreman''] rec_j1_wr2 = [PStr ''J1'', PStr ''A'']"
    "key_of [''Job Number'', ''Foreman''] rec_j2 = [PStr ''J2'', PStr ''A'']"
    by (simp_all add: key_of_def rec_j1_def rec_j1_wr2_def rec_j2_def consolidated_record_def dict_get_def)
  have d: "dedup_against_archive ?cl [rec_j1, rec_j1_wr2, rec_j2] = [rec_j2]"
    by (simp add: dedup_against_archive_def k new_consolidated_rows_def keys)
  from dedup_by_effective_key [OF h, of "[rec_j1, rec_j1_wr2, rec_j2]"] h k d
  show ?thesis by simp
qed

text \<open>
  C3, as stated, fails where the archive has none of the key columns: the claimed
  effective key is then empty, the empty projection of every record is the key of the
  archive's row, and the claim drops the record; the code falls back to all three
  columns (\<^verbatim>\<open>available_cols if available_cols else unique_key_cols\<close>), reads the row's key as
  (None, None, None), and retains the record.
\<close>

theorem no_key_column_counterexample:
  "claimed_effective_cols archive_nokeys = []
   \<and> key_of (claimed_effective_cols archive_nokeys) rec_j1
       \<in> collect_keys (title_id_map (columns archive_nokeys))
            (claimed_effective_cols archive_nokeys) (rows archive_nokeys)
   \<and> get_archive_existing_keys (with_archive (Inr archive_nokeys) cl0) ARCHIVE_SHEET_ID
         unique_key_cols
       = ({[PNone, PNone, PNone]}, unique_key_cols)
   \<and> dedup_against_archive (with_archive (Inr archive_nokeys) cl0) [rec_j1] = [rec_j1]"
proof -
  have c: "claimed_effective_cols archive_nokeys = []"
    by (simp add: claimed_effective_cols_def archive_nokeys_def col_titles_def unique_key_cols_def
        archive_col_name_def archive_col_mapping_def)
  have k: "get_archive_existing_keys (with_archive (Inr archive_nokeys) cl0) ARCHIVE_SHEET_ID
             unique_key_cols = ({[PNone, PNone, PNone]}, unique_key_cols)"
    by (simp add: archive_defs narrow_defs ARCHIVE_SHEET_ID_def)
  have d: "dedup_against_archive (with_archive (Inr archive_nokeys) cl0) [rec_j1] = [rec_j1]"
    by (simp add: dedup_against_archive_def k new_consolidated_rows_def key_rec_j1)
  have m: "key_of [] rec_j1
             \<in> collect_keys (title_id_map (columns archive_nokeys)) [] (rows archive_nokeys)"
    by (simp add: key_of_def collect_keys_def archive_nokeys_def)
  show ?thesis
    by (simp add: c k d m)
qed



section \<open>Properties of the frame\<close>

lemma fold_columns_known:
  "\<forall>r\<in>set recs. set (map fst r) \<subseteq> set ks \<Longrightarrow>
     foldl (\<lambda>cols r. cols @ filter (\<lambda>c. c \<notin> set cols) (map fst r)) ks recs = ks"
proof (induction recs)
  case Nil
  then show ?case by simp
next
  case (Cons r recs)
  from Cons.prems have "filter (\<lambda>c. c \<notin> set ks) (map fst r) = []"
    by (auto simp: filter_empty_conv)
  with Cons show ?case by simp
qed

lemma df_columns_uniform:
  assumes "recs \<noteq> []" and "\<forall>r\<in>set recs. map fst r = ks"
  shows "df_columns recs = ks"
proof -
  from assms obtain r rs where recs: "recs = r # rs" by (cases recs) auto
  with assms(2) have r: "map fst r = ks" and rs: "\<forall>r\<in>set rs. set (map fst r) \<subseteq> set ks"
    by auto
  show ?thesis
    by (simp add: df_columns_def recs r fold_columns_known [OF rs])
qed

lemma map_of_tabulate:
  "c \<in> set ks \<Longrightarrow> map_of (map (\<lambda>c. (c, f c)) ks) c = Some (f c)"
  by (induction ks) auto

lemma df_raw_dict_get: "df_raw r c = dict_get r c PNaN"
  by (simp add: df_raw_def dict_get_def)

lemma df_value_keeps: "v \<noteq> PNone \<Longrightarrow> df_value col v = v"
  by (simp add: df_value_def)

lemma data_frame_row:
  assumes "\<forall>r\<in>set recs. map fst r = ks" and "rec \<in> set (data_frame recs)"
  shows "\<exists>r0\<in>set recs. \<forall>c\<in>set ks.
           map_of rec c = Some (df_value (map (\<lambda>r'. df_raw r' c) recs) (df_raw r0 c))"
proof -
  from assms(2) have ne: "recs \<noteq> []"
    by (auto simp: data_frame_def)
  from assms(2) obtain r0 where r0: "r0 \<in> set recs"
    and rec: "rec = map (\<lambda>c. (c, df_value (map (\<lambda>r'. df_raw r' c) recs) (df_raw r0 c))) ks"
    by (auto simp: data_frame_def df_columns_uniform [OF ne assms(1)])
  have "\<forall>c\<in>set ks. map_of rec c = Some (df_value (map (\<lambda>r'. df_raw r' c) recs) (df_raw r0 c))"
    unfolding rec by (simp add: map_of_tabulate)
  with r0 show ?thesis by blast
qed

lemma tabulate_self:
  "\<forall>(c, v)\<in>set r. f c = v \<Longrightarrow> map (\<lambda>c. (c, f c)) (map fst r) = r"
  by (induction r) auto

lemma data_frame_unchanged:
  assumes "\<forall>r\<in>set recs. map fst r = ks" and "distinct ks"
      and "\<forall>r\<in>set recs. PNone \<notin> snd ` set r"
  shows "data_frame recs = recs"
proof (cases "recs = []")
  case True
  then show ?thesis by (simp add: data_frame_def)
next
  case False
  have "map (\<lambda>c. (c, df_value (map (\<lambda>r'. df_raw r' c) recs) (df_raw r c))) ks = r"
    if r: "r \<in> set recs" for r
  proof -
    from r assms have k: "map fst r = ks" and d: "distinct (map fst r)"
      and n: "PNone \<notin> snd ` set r"
      by auto
    have "\<forall>(c, v)\<in>set r. df_value (map (\<lambda>r'. df_raw r' c) recs) (df_raw r c) = v"
    proof (clarify)
      fix c v assume cv: "(c, v) \<in> set r"
      with d have "map_of r c = Some v" by simp
      then have "df_raw r c = v" by (simp add: df_raw_def)
      moreover from cv n have "v \<noteq> PNone" by force
      ultimately show "df_value (map (\<lambda>r'. df_raw r' c) recs) (df_raw r c) = v"
        by (simp add: df_value_keeps)
    qed
    from tabulate_self [OF this] show ?thesis by (simp add: k)
  qed
  then show ?thesis
    by (simp add: data_frame_def df_columns_uniform [OF False assms(1)] map_idI)
qed

section \<open>Properties of the projected rows\<close>

lemma out_row_keys: "map fst (out_row r) = map fst COLUMN_MAP"
  by (simp add: out_row_def COLUMN_MAP_def)

lemma column_map_distinct: "distinct (map fst COLUMN_MAP)"
  by (simp add: COLUMN_MAP_def)

lemma pull_rows_member:
  "rec \<in> set (pull_rows P fl now rs) \<Longrightarrow> \<exists>r. process_row P fl now r = Inr (Some rec)"
proof (induction rs)
  case Nil
  then show ?case by simp
next
  case (Cons a rs)
  show ?case
  proof (cases "process_row P fl now a")
    case (Inl e)
    with Cons.prems show ?thesis by simp
  next
    case (Inr kept)
    show ?thesis
    proof (cases kept)
      case None
      with Inr Cons show ?thesis by simp
    next
      case (Some rec')
      with Inr Cons show ?thesis by auto
    qed
  qed
qed

lemma pull_all_member:
  "rec \<in> set (pull_all P fl now cl ms) \<Longrightarrow> \<exists>r. process_row P fl now r = Inr (Some rec)"
proof -
  assume "rec \<in> set (pull_all P fl now cl ms)"
  then obtain s where "rec \<in> set (pull_sheet P fl now cl s)"
    by (auto simp: pull_all_def)
  then obtain rs where "rec \<in> set (pull_rows P fl now rs)"
    by (cases "get_sheet_data cl (sid s)") (auto simp: pull_sheet_def)
  then show ?thesis by (rule pull_rows_member)
qed

lemma pull_all_uniform:
  "\<forall>r\<in>set (pull_all P fl now cl ms). map fst r = map fst COLUMN_MAP"
proof
  fix rec assume "rec \<in> set (pull_all P fl now cl ms)"
  then obtain r where "process_row P fl now r = Inr (Some rec)"
    by (blast dest: pull_all_member)
  then have "rec = out_row r" by (simp add: process_row_keeps)
  then show "map fst rec = map fst COLUMN_MAP" by (simp add: out_row_keys)
qed

lemma pull_all_not_df_empty:
  "pull_all P fl now cl ms \<noteq> [] \<Longrightarrow> \<not> df_empty (pull_all P fl now cl ms)"
  using df_columns_uniform [OF _ pull_all_uniform, of P fl now cl ms]
  by (simp add: df_empty_def COLUMN_MAP_def)

lemma row_get_truthy: "truthy (row_get r k PNone) \<Longrightarrow> row_get r k d = row_get r k PNone"
  by (cases "r k") (simp_all add: row_get_def)

lemma dict_get_truthy: "truthy (dict_get d k PNone) \<Longrightarrow> dict_get d k dflt = dict_get d k PNone"
  by (cases "map_of d k") (simp_all add: dict_get_def)

lemma out_row_promax:
  "dict_get (out_row r) ''PROMAX'' d = row_get r ''Units Total Price'' (PStr [])"
  by (simp add: out_row_def COLUMN_MAP_def dict_get_def)

lemma out_row_date:
  "date_key (out_row r) = row_get r ''Weekly Reference Logged Date'' (PStr [])"
  by (simp add: date_key_def out_row_def COLUMN_MAP_def dict_get_def)

lemma filtered_promax:
  assumes "process_row P fl now r = Inr (Some rec)"
  shows "truthy (dict_get rec ''PROMAX'' d)
         \<and> (\<exists>x. py_float fl (dict_get rec ''PROMAX'' d) = Inr x \<and> x \<noteq> Finite 0)"
proof -
  from assms have rec: "rec = out_row r"
    and t: "truthy (row_get r ''Units Total Price'' PNone)"
    and x: "\<exists>x. py_float fl (row_get r ''Units Total Price'' PNone) = Inr x \<and> x \<noteq> Finite 0"
    by (simp_all add: process_row_keeps)
  have "dict_get rec ''PROMAX'' d = row_get r ''Units Total Price'' PNone"
    by (simp only: rec out_row_promax row_get_truthy [OF t, of "PStr []"])
  with t x show ?thesis by simp
qed

text \<open>A row of the frame of a run keeps the truthy, numeric PROMAX value of its record.\<close>

lemma frame_row_promax:
  assumes "rec \<in> set (data_frame (pull_all P fl now cl ms))"
  shows "truthy (dict_get rec ''PROMAX'' d)
         \<and> (\<exists>x. py_float fl (dict_get rec ''PROMAX'' d) = Inr x \<and> x \<noteq> Finite 0)"
proof -
  from data_frame_row [OF pull_all_uniform assms] obtain r0 where
    r0: "r0 \<in> set (pull_all P fl now cl ms)"
    and f: "\<forall>c\<in>set (map fst COLUMN_MAP). map_of rec c
              = Some (df_value (map (\<lambda>r'. df_raw r' c) (pull_all P fl now cl ms)) (df_raw r0 c))"
    by blast
  have "''PROMAX'' \<in> set (map fst COLUMN_MAP)" by (simp add: COLUMN_MAP_def)
  with f have m: "map_of rec ''PROMAX''
              = Some (df_value (map (\<lambda>r'. df_raw r' ''PROMAX'') (pull_all P fl now cl ms))
                        (df_raw r0 ''PROMAX''))"
    by blast
  from r0 obtain r where "process_row P fl now r = Inr (Some r0)"
    by (blast dest: pull_all_member)
  from filtered_promax [OF this, of PNaN]
  have t: "truthy (df_raw r0 ''PROMAX'')"
    and x: "\<exists>x. py_float fl (df_raw r0 ''PROMAX'') = Inr x \<and> x \<noteq> Finite 0"
    by (simp_all add: df_raw_dict_get)
  from t have "df_raw r0 ''PROMAX'' \<noteq> PNone" by auto
  with m have "dict_get rec ''PROMAX'' d = df_raw r0 ''PROMAX''"
    by (simp add: dict_get_def df_value_keeps)
  with t x show ?thesis by simp
qed

lemma frame_row_has_field:
  assumes "rec \<in> set (data_frame (pull_all P fl now cl ms))" and "c \<in> set copied_fields"
  shows "map_of rec c = Some (dict_get rec c (PStr []))"
proof -
  from data_frame_row [OF pull_all_uniform assms(1)] obtain r0 where
    f: "\<forall>c\<in>set (map fst COLUMN_MAP). map_of rec c
              = Some (df_value (map (\<lambda>r'. df_raw r' c) (pull_all P fl now cl ms)) (df_raw r0 c))"
    by blast
  from assms(2) have "c \<in> set (map fst COLUMN_MAP)"
    by (auto simp: copied_fields_def COLUMN_MAP_def)
  with f obtain v where "map_of rec c = Some v" by blast
  then show ?thesis by (simp add: dict_get_def)
qed


section \<open>Properties of grouping\<close>

lemma add_to_group_nonempty: "add_to_group key rec gs \<noteq> []"
  by (cases gs) (auto split: if_splits)

lemma fold_groups_nonempty:
  "gs \<noteq> [] \<Longrightarrow>
   foldl (\<lambda>grouped rec. add_to_group (key_of unique_key_cols rec) rec grouped) gs recs \<noteq> []"
  by (induction recs arbitrary: gs) (simp_all add: add_to_group_nonempty)

lemma grouped_records_nonempty: "recs \<noteq> [] \<Longrightarrow> grouped_records recs \<noteq> []"
  by (cases recs) (simp_all add: grouped_records_def fold_groups_nonempty add_to_group_nonempty)

lemma consolidate_all_length:
  "consolidate_all fl gs = Inr recs \<Longrightarrow> length recs = length gs"
  by (induction gs arbitrary: recs) (auto split: sum.splits)

lemma add_to_group_member:
  "(k, g) \<in> set (add_to_group key rec gs) \<Longrightarrow>
     (k, g) \<in> set gs \<or> (k = key \<and> (g = [rec] \<or> (\<exists>g0. (k, g0) \<in> set gs \<and> g = g0 @ [rec])))"
  by (induction gs) (auto simp: key_eq_def split: if_splits)

lemma fold_groups_members:
  assumes "\<forall>(k, g)\<in>set gs. g \<noteq> [] \<and> (\<forall>r\<in>set g. r \<in> S \<and> key_of unique_key_cols r = k)"
      and "set recs \<subseteq> S"
  shows "\<forall>(k, g)\<in>set (foldl (\<lambda>grouped rec. add_to_group (key_of unique_key_cols rec) rec grouped)
                           gs recs).
           g \<noteq> [] \<and> (\<forall>r\<in>set g. r \<in> S \<and> key_of unique_key_cols r = k)"
  using assms
proof (induction recs arbitrary: gs)
  case Nil
  then show ?case by simp
next
  case (Cons rec recs)
  have "\<forall>(k, g)\<in>set (add_to_group (key_of unique_key_cols rec) rec gs).
          g \<noteq> [] \<and> (\<forall>r\<in>set g. r \<in> S \<and> key_of unique_key_cols r = k)"
    using Cons.prems by (fastforce dest!: add_to_group_member)
  from Cons.IH [OF this] Cons.prems(2) show ?case by simp
qed

lemma grouped_records_members:
  assumes "(key, grp) \<in> set (grouped_records recs)"
  shows "grp \<noteq> [] \<and> (\<forall>r\<in>set grp. r \<in> set recs \<and> key_of unique_key_cols r = key)"
  using fold_groups_members [of "[]" "set recs" recs] assms
  by (auto simp: grouped_records_def)

lemma group_of_frame_rows:
  assumes "(key, grp) \<in> set (grouped_records (data_frame (pull_all P fl now cl ms)))"
  shows "grp \<noteq> []"
    and "\<forall>r\<in>set grp. key_of unique_key_cols r = key"
    and "\<forall>r\<in>set grp. r \<in> set (data_frame (pull_all P fl now cl ms))"
  using grouped_records_members [OF assms] by auto

section \<open>Properties of the sum\<close>

lemma promax_floats_truthy:
  assumes "\<forall>r\<in>set grp. truthy (dict_get r ''PROMAX'' PNone)
                        \<longrightarrow> (\<exists>x. py_float fl (dict_get r ''PROMAX'' PNone) = Inr x)"
  shows "promax_floats fl grp =
           Inr (map (promax_contribution fl)
                  (filter (\<lambda>r. truthy (dict_get r ''PROMAX'' PNone)) grp))"
  using assms
proof (induction grp)
  case Nil
  then show ?case by simp
next
  case (Cons r grp)
  have ih: "promax_floats fl grp =
           Inr (map (promax_contribution fl)
                  (filter (\<lambda>r. truthy (dict_get r ''PROMAX'' PNone)) grp))"
    using Cons.prems by (intro Cons.IH) simp
  show ?case
  proof (cases "truthy (dict_get r ''PROMAX'' PNone)")
    case True
    with Cons.prems obtain x where x: "py_float fl (dict_get r ''PROMAX'' PNone) = Inr x"
      by auto
    have "dict_get r ''PROMAX'' (PNum 0) = dict_get r ''PROMAX'' PNone"
      by (rule dict_get_truthy [OF True])
    then show ?thesis
      using True x ih by (simp add: promax_contribution_def)
  next
    case False
    then show ?thesis using ih by simp
  qed
qed

lemma total_promax_of_frame_rows:
  assumes "(key, grp) \<in> set (grouped_records (data_frame (pull_all P fl now cl ms)))"
  shows "total_promax fl grp = Inr (of_float (float_sum fl (map (promax_contribution fl) grp)))"
    and "\<forall>r\<in>set grp. truthy (dict_get r ''PROMAX'' PNone)
            \<and> py_float fl (dict_get r ''PROMAX'' PNone) = Inr (promax_contribution fl r)"
proof -
  note grp = group_of_frame_rows [OF assms]
  show all: "\<forall>r\<in>set grp. truthy (dict_get r ''PROMAX'' PNone)
            \<and> py_float fl (dict_get r ''PROMAX'' PNone) = Inr (promax_contribution fl r)"
  proof
    fix r assume "r \<in> set grp"
    with grp(3) have "r \<in> set (data_frame (pull_all P fl now cl ms))" by blast
    from frame_row_promax [OF this, of PNone]
    show "truthy (dict_get r ''PROMAX'' PNone)
            \<and> py_float fl (dict_get r ''PROMAX'' PNone) = Inr (promax_contribution fl r)"
      by (auto simp: promax_contribution_def)
  qed
  then have "filter (\<lambda>r. truthy (dict_get r ''PROMAX'' PNone)) grp = grp"
    by (simp add: filter_id_conv)
  moreover have "promax_floats fl grp =
           Inr (map (promax_contribution fl)
                  (filter (\<lambda>r. truthy (dict_get r ''PROMAX'' PNone)) grp))"
    using all by (intro promax_floats_truthy) blast
  ultimately have "promax_floats fl grp = Inr (map (promax_contribution fl) grp)"
    by simp
  with grp(1) show "total_promax fl grp
                      = Inr (of_float (float_sum fl (map (promax_contribution fl) grp)))"
    by (simp add: total_promax_def py_sum_def)
qed

text \<open>
  C4, as amended. For every group that the grouping makes of the rows of the frame of a
  run, every member has a truthy PROMAX value that \<^verbatim>\<open>float()\<close> converts (none is missing
  or non-numeric, none is skipped), the sum of line 308 is the float sum of the converted
  values of all members in their order, and the consolidated record of the group, when
  the loop body produces it, carries that float in its PROMAX field.
\<close>

theorem group_total_is_float_sum:
  assumes "(key, grp) \<in> set (grouped_records (data_frame (pull_all P fl now cl ms)))"
  shows "total_promax fl grp = Inr (of_float (float_sum fl (map (promax_contribution fl) grp)))
       \<and> (\<forall>r\<in>set grp. truthy (dict_get r ''PROMAX'' PNone)
             \<and> py_float fl (dict_get r ''PROMAX'' PNone) = Inr (promax_contribution fl r))
       \<and> (\<forall>rec. consolidate fl (key, grp) = Inr rec \<longrightarrow>
             map_of rec ''PROMAX''
               = Some (of_float (float_sum fl (map (promax_contribution fl) grp))))"
proof -
  note t = total_promax_of_frame_rows [OF assms]
  have "map_of rec ''PROMAX'' = Some (of_float (float_sum fl (map (promax_contribution fl) grp)))"
    if "consolidate fl (key, grp) = Inr rec" for rec
  proof -
    from that obtain job_num foreman work_release latest where
      "rec = consolidated_record (of_float (float_sum fl (map (promax_contribution fl) grp)))
               job_num foreman work_release latest"
      by (auto simp: consolidate_def t(1) split: list.splits sum.splits)
    then show ?thesis
      by (simp add: consolidated_record_def)
  qed
  with t show ?thesis by blast
qed


lemmas filter_defs = process_row_def row_get_def is_past_week_def P0_def
  week_start_def weekday_def now0_def dt_def dt_less_def instant_def fl0_def

section \<open>The run on the concrete inputs\<close>

lemma out_row_of:
  "out_row (row_of price date order_no) =
     [(''PROMAX'', price), (''Job Number'', PStr ''J1''), (''Work Order'', PStr order_no),
      (''Work Release'', PStr ''WR1''), (''Start Date'', PStr []), (''Scope Number'', PStr []),
      (''Foreman'', PStr ''A''), (''Location'', PStr []), (''Crew'', PStr []),
      (''% of Completion'', PStr []), (''Weekly Reference Logged Date'', date),
      (''Expected Time of Completion'', PStr []), (''Snapshot Date'', PStr []),
      (''Work Request #'', PStr [])]"
  by (simp add: out_row_def COLUMN_MAP_def row_get_def row_of_def)

lemma out_row_j1:
  "out_row row_j1 =
     [(''PROMAX'', PNum 150), (''Job Number'', PStr ''J1''), (''Work Order'', PStr ''WO-1''),
      (''Work Release'', PStr ''WR1''), (''Start Date'', PStr []), (''Scope Number'', PStr []),
      (''Foreman'', PStr ''A''), (''Location'', PStr []), (''Crew'', PStr []),
      (''% of Completion'', PStr []), (''Weekly Reference Logged Date'', PStr ''2024-01-03''),
      (''Expected Time of Completion'', PStr []), (''Snapshot Date'', PStr []),
      (''Work Request #'', PStr [])]"
  by (simp add: out_row_def COLUMN_MAP_def row_get_def row_j1_def)

lemma frame_of_out_rows:
  "\<forall>r\<in>set rs. PNone \<notin> snd ` set (out_row r) \<Longrightarrow>
     data_frame (map out_row rs) = map out_row rs"
  by (rule data_frame_unchanged [where ks = "map fst COLUMN_MAP"])
     (auto simp: out_row_keys column_map_distinct)

lemma frame_j1: "data_frame [out_row row_j1] = [out_row row_j1]"
  using frame_of_out_rows [of "[row_j1]"] by (simp add: out_row_j1)

lemma frame_two:
  "price1 \<noteq> PNone \<Longrightarrow> date1 \<noteq> PNone \<Longrightarrow> price2 \<noteq> PNone \<Longrightarrow> date2 \<noteq> PNone \<Longrightarrow>
     data_frame [out_row (row_of price1 date1 o1), out_row (row_of price2 date2 o2)]
       = [out_row (row_of price1 date1 o1), out_row (row_of price2 date2 o2)]"
  using frame_of_out_rows [of "[row_of price1 date1 o1, row_of price2 date2 o2]"]
  by (simp add: out_row_of)

lemma frame_one:
  "price \<noteq> PNone \<Longrightarrow> date \<noteq> PNone \<Longrightarrow>
     data_frame [out_row (row_of price date o1)] = [out_row (row_of price date o1)]"
  using frame_of_out_rows [of "[row_of price date o1]"]
  by (simp add: out_row_of)

lemma matching_cl0: "get_matching_sheets cl0 REFERENCE_SHEET_ID = Inr [s_extra]"
  by (simp add: get_matching_sheets_def sheet_defs)

lemma sheet_extra_rows: "get_sheet_data cl0 (sid s_extra) = Inr [row_j1]"
  by (simp add: get_sheet_data_def id_title_map_def row_dict_def sheet_defs row_j1_def)

lemma process_row_j1: "process_row P0 fl0 now0 row_j1 = Inr (Some (out_row row_j1))"
  by (simp add: filter_defs row_j1_def)

lemma pull_cl0: "pull_all P0 fl0 now0 cl0 [s_extra] = [out_row row_j1]"
  by (simp add: pull_all_def pull_sheet_def sheet_extra_rows process_row_j1)

lemma consolidate_j1: "consolidate_all fl0 (grouped_records [out_row row_j1]) = Inr [rec_j1]"
  by (simp add: out_row_j1 grouped_records_def key_of_def unique_key_cols_def dict_get_def
      consolidate_def total_promax_def py_sum_def fl0_def exact_sum_def rec_j1_def)

lemma rec_j1_cells:
  "row_cells (title_id_map (columns archive0)) rec_j1 =
     [\<lparr>column_id = 4, cvalue = PNum 150\<rparr>, \<lparr>column_id = 1, cvalue = PStr ''J1''\<rparr>,
      \<lparr>column_id = 2, cvalue = PStr ''A''\<rparr>, \<lparr>column_id = 3, cvalue = PStr ''WR1''\<rparr>]"
  by (simp add: row_cells_def rec_j1_def consolidated_record_def out_row_j1 dict_get_def
      title_id_map_def archive0_def archive_titles_def archive_col_name_def archive_col_mapping_def)

lemma check_fails_reads:
  "get_sheet cl_check_fails ArchiveCheck ARCHIVE_SHEET_ID = Inl ApiError"
  "get_sheet cl_check_fails ArchiveWrite ARCHIVE_SHEET_ID = Inr archive0"
  "get_sheet cl_check_fails Discovery = get_sheet cl0 Discovery"
  "get_sheet cl_check_fails Pull = get_sheet cl0 Pull"
  "all_sheets cl_check_fails = all_sheets cl0"
  "add_rows cl_check_fails = add_rows cl0"
  by (simp_all add: cl_check_fails_def cl0_def ARCHIVE_SHEET_ID_def REFERENCE_SHEET_ID_def)

section \<open>The early exits of \<^verbatim>\<open>main\<close>\<close>

lemma main_no_records:
  "get_matching_sheets cl REFERENCE_SHEET_ID = Inr ms \<Longrightarrow> pull_all P fl now cl ms = [] \<Longrightarrow>
     main P fl now dry_run cl = NoRecords"
  by (simp add: main_def df_empty_def)

lemma main_nothing_new:
  assumes "get_matching_sheets cl REFERENCE_SHEET_ID = Inr ms"
      and "pull_all P fl now cl ms \<noteq> []"
      and "consolidate_all fl (grouped_records (data_frame (pull_all P fl now cl ms))) = Inr recs"
      and "dedup_against_archive cl recs = []"
  shows "main P fl now dry_run cl = Uncaught UnboundLocalError"
  using assms pull_all_not_df_empty [OF assms(2)]
  by (simp add: main_def new_rows_binding_def)

text \<open>
  C9. The claim: when no new record remains after a successful deduplication, the run
  ends as a no-op without error. An empty set of filtered rows does end the run at line
  271 (\<open>main_no_records\<close>). With the group (J1, A, WR1) already in the archive, though,
  the deduplication keeps nothing, \<^verbatim>\<open>new_rows\<close> is never assigned (line 377 stands inside
  \<^verbatim>\<open>if new_consolidated_rows:\<close>), and the test \<^verbatim>\<open>if not new_rows:\<close> of line 386 raises
  \<^verbatim>\<open>UnboundLocalError\<close>, which leaves \<^verbatim>\<open>main\<close>, in the dry run and in the live run.
\<close>

theorem nothing_new_raises_unbound_local:
  "dedup_against_archive cl0 [rec_j1] = []
   \<and> new_rows_binding cl0 [rec_j1] = None
   \<and> main P0 fl0 now0 True cl0 = Uncaught UnboundLocalError
   \<and> main P0 fl0 now0 False cl0 = Uncaught UnboundLocalError"
proof -
  have d: "dedup_against_archive cl0 [rec_j1] = []"
    by (simp add: dedup_against_archive_def keys0 new_consolidated_rows_def key_rec_j1)
  have ne: "pull_all P0 fl0 now0 cl0 [s_extra] \<noteq> []"
    by (simp add: pull_cl0)
  have c: "consolidate_all fl0 (grouped_records (data_frame (pull_all P0 fl0 now0 cl0 [s_extra])))
             = Inr [rec_j1]"
    by (simp add: pull_cl0 frame_j1 consolidate_j1)
  show ?thesis
    by (simp add: d new_rows_binding_def main_nothing_new [OF matching_cl0 ne c d])
qed

theorem nothing_new_raises_unbound_local_witness:
  "main P0 fl0 now0 False cl0 \<noteq> NoNewRows"
  using nothing_new_raises_unbound_local by simp


section \<open>Properties of the write\<close>

lemma new_sheet_rows_raises: "new_rows \<noteq> [] \<Longrightarrow> new_sheet_rows col_map new_rows = Inl TypeError"
  by (cases new_rows) (simp_all add: sdk_Row_def)

lemma append_to_archive_fails:
  "new_rows \<noteq> [] \<Longrightarrow> \<exists>e. append_to_archive cl new_rows = AppendFailed e"
  by (simp add: append_to_archive_def new_sheet_rows_raises split: sum.splits)

lemma archive_operation_not_uncaught: "archive_operation dry_run cl new_rows \<noteq> Uncaught e"
  by (simp add: archive_operation_def append_to_archive_def split: sum.splits)

text \<open>
  C8, as amended. When the read of the archive sheet itself raises in the check of step
  4, \<^verbatim>\<open>get_archive_existing_keys\<close> answers with the empty key set and the three Group Key
  columns, the deduplication loop keeps every consolidated record, and a run that has
  consolidated its records goes on to step 5 with all of them: it ends in the dry-run
  report or in the caught result of the write, never in an exception that leaves \<^verbatim>\<open>main\<close>.
\<close>

theorem archive_read_failure_keeps_all:
  assumes "get_sheet cl ArchiveCheck ARCHIVE_SHEET_ID = Inl e"
  shows "get_archive_existing_keys cl ARCHIVE_SHEET_ID unique_key_cols = ({}, unique_key_cols)
       \<and> dedup_against_archive cl recs = recs
       \<and> (get_matching_sheets cl REFERENCE_SHEET_ID = Inr ms
            \<and> pull_all P fl now cl ms \<noteq> []
            \<and> consolidate_all fl (grouped_records (data_frame (pull_all P fl now cl ms))) = Inr recs
          \<longrightarrow> main P fl now dry_run cl = archive_operation dry_run cl recs
              \<and> (\<forall>e'. main P fl now dry_run cl \<noteq> Uncaught e'))"
proof -
  have k: "get_archive_existing_keys cl ARCHIVE_SHEET_ID unique_key_cols = ({}, unique_key_cols)"
    using assms by (simp add: get_archive_existing_keys_def)
  have d: "dedup_against_archive cl recs = recs"
    by (simp add: dedup_against_archive_def k new_consolidated_rows_def)
  have m: "main P fl now dry_run cl = archive_operation dry_run cl recs"
    if ms: "get_matching_sheets cl REFERENCE_SHEET_ID = Inr ms"
      and ne: "pull_all P fl now cl ms \<noteq> []"
      and c: "consolidate_all fl (grouped_records (data_frame (pull_all P fl now cl ms))) = Inr recs"
  proof -
    have "data_frame (pull_all P fl now cl ms) \<noteq> []"
      using ne by (simp add: data_frame_def)
    from grouped_records_nonempty [OF this] consolidate_all_length [OF c]
    have "recs \<noteq> []" by auto
    then have "new_rows_binding cl recs = Some recs"
      by (simp add: new_rows_binding_def d)
    with ms c \<open>recs \<noteq> []\<close> pull_all_not_df_empty [OF ne] show ?thesis
      by (simp add: main_def)
  qed
  show ?thesis
    using k d m by (auto simp: archive_operation_not_uncaught)
qed

theorem archive_read_failure_keeps_all_witness:
  "get_sheet cl_check_fails ArchiveCheck ARCHIVE_SHEET_ID = Inl ApiError
   \<and> dedup_against_archive cl_check_fails [rec_j1] = [rec_j1]
   \<and> main P0 fl0 now0 True cl_check_fails = DryRunReport [rec_j1]
   \<and> main P0 fl0 now0 False cl_check_fails = AppendFailed TypeError"
proof -
  have m: "get_matching_sheets cl_check_fails REFERENCE_SHEET_ID = Inr [s_extra]"
    by (simp add: get_matching_sheets_def check_fails_reads sheet_defs)
  have p: "pull_all P0 fl0 now0 cl_check_fails [s_extra] = [out_row row_j1]"
    using pull_cl0 by (simp add: pull_all_def pull_sheet_def get_sheet_data_def check_fails_reads)
  have hyp: "get_matching_sheets cl_check_fails REFERENCE_SHEET_ID = Inr [s_extra]
        \<and> pull_all P0 fl0 now0 cl_check_fails [s_extra] \<noteq> []
        \<and> consolidate_all fl0
             (grouped_records (data_frame (pull_all P0 fl0 now0 cl_check_fails [s_extra])))
            = Inr [rec_j1]"
    by (simp add: m p frame_j1 consolidate_j1)
  have w: "append_to_archive cl_check_fails [rec_j1] = AppendFailed TypeError"
    by (simp add: append_to_archive_def check_fails_reads sdk_Row_def)
  from archive_read_failure_keeps_all [OF check_fails_reads(1), of "[rec_j1]" "[s_extra]" P0 fl0 now0 True]
    archive_read_failure_keeps_all [OF check_fails_reads(1), of "[rec_j1]" "[s_extra]" P0 fl0 now0 False]
    hyp w
  show ?thesis
    by (simp add: check_fails_reads archive_operation_def)
qed

text \<open>
  C8, as stated, fails for an exception raised while a row of the archive is read: the
  row without a "Foreman" cell raises in line 138, the handler of line 144 skips that row
  only, the key of the other row stays in the key set, and the record of the group (J1,
  A, WR1) is dropped, not treated as new.
\<close>

theorem archive_row_error_counterexample:
  "row_without_foreman \<in> set (rows archive_rowerr)
   \<and> key_values (title_id_map (columns archive_rowerr)) row_without_foreman unique_key_cols
       = Inl AttributeError
   \<and> get_archive_existing_keys (with_archive (Inr archive_rowerr) cl0) ARCHIVE_SHEET_ID
         unique_key_cols
       = ({[PStr ''J1'', PStr ''A'', PStr ''WR1'']}, unique_key_cols)
   \<and> dedup_against_archive (with_archive (Inr archive_rowerr) cl0) [rec_j1] = []"
proof -
  have r: "row_without_foreman \<in> set (rows archive_rowerr)"
    by (simp add: archive_rowerr_def)
  have e: "key_values (title_id_map (columns archive_rowerr)) row_without_foreman unique_key_cols
       = Inl AttributeError"
    by (simp add: archive_rowerr_def archive_titles_def row_without_foreman_def title_id_map_def
        unique_key_cols_def archive_col_name_def archive_col_mapping_def get_column_def)
  have k: "get_archive_existing_keys (with_archive (Inr archive_rowerr) cl0) ARCHIVE_SHEET_ID
         unique_key_cols
       = ({[PStr ''J1'', PStr ''A'', PStr ''WR1'']}, unique_key_cols)"
    by (simp add: archive_defs with_archive_def archive_rowerr_def archive_titles_def
        row_without_foreman_def ARCHIVE_SHEET_ID_def)
  have d: "dedup_against_archive (with_archive (Inr archive_rowerr) cl0) [rec_j1] = []"
    by (simp add: dedup_against_archive_def k new_consolidated_rows_def key_rec_j1)
  from r e k d show ?thesis by simp
qed

lemma row_cells_Cons:
  "row_cells col_map ((col, val) # rec) =
          (if truthy val
           then (case col_map (archive_col_name col) of
                   Some cid \<Rightarrow> [\<lparr>column_id = cid, cvalue = val\<rparr>]
                 | None \<Rightarrow> [])
           else []) @ row_cells col_map rec"
  by (simp add: row_cells_def)

lemma row_cells_Nil: "row_cells col_map [] = []"
  by (simp add: row_cells_def)

lemma set_row_cells:
  "set (row_cells col_map rec) =
     {\<lparr>column_id = cid, cvalue = val\<rparr> | col val cid.
        (col, val) \<in> set rec \<and> truthy val \<and> col_map (archive_col_name col) = Some cid}"
proof (induction rec)
  case Nil
  then show ?case by (simp add: row_cells_Nil)
next
  case (Cons a rec)
  obtain col val where a: "a = (col, val)" by (cases a)
  show ?case
    unfolding a row_cells_Cons set_append Cons.IH
    by (cases "truthy val"; cases "col_map (archive_col_name col)") auto
qed

lemma row_cells_iff:
  "c \<in> set (row_cells col_map rec) \<longleftrightarrow>
     (\<exists>col val. (col, val) \<in> set rec \<and> truthy val
                \<and> col_map (archive_col_name col) = Some (column_id c) \<and> cvalue c = val)"
  unfolding set_row_cells by (cases c) auto


section \<open>The runs on the two-row sheets\<close>

lemma with_source_reads:
  "get_sheet (with_source sh cl0) site 11 = Inr sh"
  "get_sheet (with_source sh cl0) site REFERENCE_SHEET_ID = Inr ref_sheet0"
  "get_sheet (with_source sh cl0) site ARCHIVE_SHEET_ID = Inr archive0"
  "all_sheets (with_source sh cl0) = [s_extra, s_broken, s_missing]"
  by (simp_all add: with_source_def cl0_def REFERENCE_SHEET_ID_def ARCHIVE_SHEET_ID_def)

lemma rows_two:
  "get_sheet_data (with_source sheet_two cl0) (sid s_extra) =
     Inr [row_of (PNum 100) (PStr ''9/1/2023'') ''WO-1'',
          row_of (PNum 50) (PStr ''12/25/2023'') ''WO-2'']"
  by (simp add: get_sheet_data_def s_extra_def with_source_reads)
     (simp add: sheet_two_def src_titles_def id_title_map_def row_dict_def row_of_def)

lemma rows_mixed:
  "get_sheet_data (with_source sheet_mixed cl0) (sid s_extra) =
     Inr [row_of (PNum 100) (PStr ''2024-01-03'') ''WO-1'',
          row_of (PNum 50) (PNum 20240101) ''WO-2'']"
  by (simp add: get_sheet_data_def s_extra_def with_source_reads)
     (simp add: sheet_mixed_def src_titles_def id_title_map_def row_dict_def row_of_def)

lemma rows_big:
  "get_sheet_data (with_source sheet_big cl0) (sid s_extra) =
     Inr [row_of (PNum 9007199254740993) (PStr ''2024-01-03'') ''WO-1'']"
  by (simp add: get_sheet_data_def s_extra_def with_source_reads)
     (simp add: sheet_big_def src_titles_def id_title_map_def row_dict_def row_of_def)

lemma process_rows_of:
  "process_row P0 fl0 now0 (row_of (PNum 100) (PStr ''9/1/2023'') ''WO-1'') = Inr (Some rec_a)"
  "process_row P0 fl0 now0 (row_of (PNum 50) (PStr ''12/25/2023'') ''WO-2'') = Inr (Some rec_b)"
  "process_row P0 fl0 now0 (row_of (PNum 100) (PStr ''2024-01-03'') ''WO-1'') = Inr (Some rec_s)"
  "process_row P0 fl0 now0 (row_of (PNum 50) (PNum 20240101) ''WO-2'') = Inr (Some rec_n)"
  "process_row P0 fl0 now0 (row_of (PNum (- 100)) (PStr ''2024-01-03'') ''WO-2'') = Inr (Some rec_m)"
  "process_row P0 fl53 now0 (row_of (PNum 9007199254740993) (PStr ''2024-01-03'') ''WO-1'')
     = Inr (Some rec_big)"
  by (simp_all add: filter_defs fl53_def row_of_def rec_a_def rec_b_def rec_s_def rec_n_def
      rec_m_def rec_big_def)

lemma pull_two: "pull_all P0 fl0 now0 (with_source sheet_two cl0) [s_extra] = [rec_a, rec_b]"
  by (simp add: pull_all_def pull_sheet_def rows_two process_rows_of)

lemma pull_mixed: "pull_all P0 fl0 now0 (with_source sheet_mixed cl0) [s_extra] = [rec_s, rec_n]"
  by (simp add: pull_all_def pull_sheet_def rows_mixed process_rows_of)

lemma pull_big: "pull_all P0 fl53 now0 (with_source sheet_big cl0) [s_extra] = [rec_big]"
  by (simp add: pull_all_def pull_sheet_def rows_big process_rows_of)

lemma frames_of_recs:
  "data_frame [rec_a, rec_b] = [rec_a, rec_b]"
  "data_frame [rec_s, rec_n] = [rec_s, rec_n]"
  "data_frame [rec_p, rec_m] = [rec_p, rec_m]"
  "data_frame [rec_big] = [rec_big]"
  by (simp_all add: rec_a_def rec_b_def rec_s_def rec_n_def rec_p_def rec_m_def rec_big_def
      frame_two frame_one)

lemma keys_of_recs:
  "key_of unique_key_cols rec_a = key_j1" "key_of unique_key_cols rec_b = key_j1"
  "key_of unique_key_cols rec_s = key_j1" "key_of unique_key_cols rec_n = key_j1"
  "key_of unique_key_cols rec_p = key_j1" "key_of unique_key_cols rec_m = key_j1"
  "key_of unique_key_cols rec_big = key_j1"
  by (simp_all add: key_of_def unique_key_cols_def key_j1_def dict_get_def out_row_of
      rec_a_def rec_b_def rec_s_def rec_n_def rec_p_def rec_m_def rec_big_def)

lemma key_j1_eq: "key_eq key_j1 key_j1"
  by (simp add: key_eq_def key_j1_def)

lemma groups_of_recs:
  "grouped_records [rec_a, rec_b] = [(key_j1, [rec_a, rec_b])]"
  "grouped_records [rec_s, rec_n] = [(key_j1, [rec_s, rec_n])]"
  "grouped_records [rec_p, rec_m] = [(key_j1, [rec_p, rec_m])]"
  "grouped_records [rec_big] = [(key_j1, [rec_big])]"
  by (simp_all add: grouped_records_def keys_of_recs key_j1_eq)

lemma promax_of_recs:
  "dict_get rec_a ''PROMAX'' d = PNum 100" "dict_get rec_b ''PROMAX'' d = PNum 50"
  "dict_get rec_s ''PROMAX'' d = PNum 100" "dict_get rec_n ''PROMAX'' d = PNum 50"
  "dict_get rec_p ''PROMAX'' d = PNum 100" "dict_get rec_m ''PROMAX'' d = PNum (- 100)"
  "dict_get rec_big ''PROMAX'' d = PNum 9007199254740993"
  by (simp_all add: out_row_promax row_get_def row_of_def rec_a_def rec_b_def rec_s_def
      rec_n_def rec_p_def rec_m_def rec_big_def)

lemma dates_of_recs:
  "date_key rec_a = PStr ''9/1/2023''" "date_key rec_b = PStr ''12/25/2023''"
  "date_key rec_s = PStr ''2024-01-03''" "date_key rec_n = PNum 20240101"
  "date_key rec_p = PStr ''2024-01-03''" "date_key rec_m = PStr ''2024-01-03''"
  by (simp_all add: out_row_date row_get_def row_of_def rec_a_def rec_b_def rec_s_def
      rec_n_def rec_p_def rec_m_def)

lemma totals_of_recs:
  "total_promax fl0 [rec_a, rec_b] = Inr (PNum 150)"
  "total_promax fl0 [rec_p, rec_m] = Inr (PNum 0)"
  "total_promax fl0 [rec_s, rec_n] = Inr (PNum 150)"
  "total_promax fl53 [rec_big] = Inr (PNum 9007199254740992)"
  by (simp_all add: total_promax_def promax_of_recs py_sum_def fl0_def fl53_def exact_sum_def)

lemma consolidate_two:
  "consolidate fl0 (key_j1, [rec_a, rec_b]) =
     Inr (consolidated_record (PNum 150) (PStr ''J1'') (PStr ''A'') (PStr ''WR1'') rec_a)"
  by (simp add: consolidate_def key_j1_def totals_of_recs dates_of_recs)

lemma consolidate_cancel: "consolidate fl0 (key_j1, [rec_p, rec_m]) = Inr rec_zero"
  by (simp add: consolidate_def key_j1_def totals_of_recs dates_of_recs rec_zero_def)

theorem group_total_is_float_sum_witness:
  "(key_j1, [rec_a, rec_b])
     \<in> set (grouped_records (data_frame (pull_all P0 fl0 now0 (with_source sheet_two cl0) [s_extra])))
   \<and> total_promax fl0 [rec_a, rec_b] = Inr (PNum 150)
   \<and> float_sum fl0 (map (promax_contribution fl0) [rec_a, rec_b]) = Finite 150
   \<and> consolidate fl0 (key_j1, [rec_a, rec_b]) =
        Inr (consolidated_record (PNum 150) (PStr ''J1'') (PStr ''A'') (PStr ''WR1'') rec_a)
   \<and> map_of (consolidated_record (PNum 150) (PStr ''J1'') (PStr ''A'') (PStr ''WR1'') rec_a)
        ''PROMAX'' = Some (PNum 150)"
proof -
  have g: "(key_j1, [rec_a, rec_b])
     \<in> set (grouped_records (data_frame (pull_all P0 fl0 now0 (with_source sheet_two cl0) [s_extra])))"
    by (simp add: pull_two frames_of_recs groups_of_recs)
  have s: "float_sum fl0 (map (promax_contribution fl0) [rec_a, rec_b]) = Finite 150"
    by (simp add: promax_contribution_def promax_of_recs fl0_def exact_sum_def)
  from group_total_is_float_sum [OF g] s consolidate_two g
  show ?thesis by simp
qed

text \<open>
  C4, as stated, fails where the float arithmetic rounds: the one row of the group has
  the price 9007199254740993, \<^verbatim>\<open>float()\<close> turns it into 9007199254740992.0 at line 308,
  and the total of the group is not the sum of the monetary field.
\<close>

theorem rounded_total_counterexample:
  "(key_j1, [rec_big])
     \<in> set (grouped_records (data_frame (pull_all P0 fl53 now0 (with_source sheet_big cl0) [s_extra])))
   \<and> dict_get rec_big ''PROMAX'' PNone = PNum 9007199254740993
   \<and> total_promax fl53 [rec_big] = Inr (PNum 9007199254740992)"
  by (simp add: pull_big frames_of_recs groups_of_recs promax_of_recs totals_of_recs)


section \<open>The live write of a record with total 0\<close>

lemma cancel_reads:
  "get_sheet cl_cancel site ARCHIVE_SHEET_ID = Inr archive_other"
  "get_sheet cl_cancel site REFERENCE_SHEET_ID = Inr ref_sheet0"
  "get_sheet cl_cancel site 11 = Inr sheet_cancel"
  "get_sheet cl_cancel site 12 = Inl ApiError"
  "get_sheet cl_cancel site 13 = Inr sheet_missing"
  "all_sheets cl_cancel = [s_extra, s_broken, s_missing]"
  by (simp_all add: cl_cancel_def with_archive_def with_source_def cl0_def
      REFERENCE_SHEET_ID_def ARCHIVE_SHEET_ID_def)

lemma matching_cancel: "get_matching_sheets cl_cancel REFERENCE_SHEET_ID = Inr [s_extra]"
  by (simp add: get_matching_sheets_def cancel_reads s_extra_def s_broken_def s_missing_def)
     (simp add: col_titles_def ref_sheet0_def sheet_cancel_def sheet_missing_def src_titles_def)

lemma rows_cancel:
  "get_sheet_data cl_cancel (sid s_extra) =
     Inr [row_of (PNum 100) (PStr ''2024-01-03'') ''WO-1'',
          row_of (PNum (- 100)) (PStr ''2024-01-03'') ''WO-2'']"
  by (simp add: get_sheet_data_def s_extra_def cancel_reads)
     (simp add: sheet_cancel_def src_titles_def id_title_map_def row_dict_def row_of_def)

lemma pull_cancel: "pull_all P0 fl0 now0 cl_cancel [s_extra] = [rec_p, rec_m]"
  by (simp add: pull_all_def pull_sheet_def rows_cancel process_rows_of rec_p_def rec_s_def)

lemma keys_cancel:
  "get_archive_existing_keys cl_cancel ARCHIVE_SHEET_ID unique_key_cols =
     ({[PStr ''J9'', PStr ''B'', PStr ''WR9'']}, unique_key_cols)"
  by (simp add: get_archive_existing_keys_def cancel_reads)
     (simp add: title_id_map_def effective_key_cols_def available_cols_def unique_key_cols_def
        archive_col_name_def archive_col_mapping_def collect_keys_def get_column_def
        archive_other_def archive_titles_def)

lemma key_rec_zero: "key_of unique_key_cols rec_zero = [PStr ''J1'', PStr ''A'', PStr ''WR1'']"
  by (simp add: key_of_def unique_key_cols_def rec_zero_def consolidated_record_def dict_get_def)

lemma rec_zero_cells:
  "row_cells (title_id_map (columns archive_other)) rec_zero =
     [\<lparr>column_id = 1, cvalue = PStr ''J1''\<rparr>, \<lparr>column_id = 2, cvalue = PStr ''A''\<rparr>,
      \<lparr>column_id = 3, cvalue = PStr ''WR1''\<rparr>]"
  by (simp add: row_cells_def rec_zero_def rec_p_def consolidated_record_def out_row_of dict_get_def
      title_id_map_def archive_other_def archive_titles_def archive_col_name_def
      archive_col_mapping_def)

text \<open>
  C10. The claim: a consolidated record whose PROMAX total is exactly 0 is appended
  without a PROMAX cell. The prices 100 and -100 of the group (J1, A, WR1) give the
  total 0, the group is not in the archive, and the cells built for the record are those
  of its three key fields: truthy values whose archive-side column exists, no PROMAX
  cell. But the call of line 436 raises \<^verbatim>\<open>TypeError\<close> before any row is built; the
  handler of line 441 reports it, \<^verbatim>\<open>add_rows\<close> is never called, and nothing is appended.
\<close>

theorem zero_total_record_is_not_appended:
  "consolidate fl0 (key_j1, [rec_p, rec_m]) = Inr rec_zero
   \<and> map_of rec_zero ''PROMAX'' = Some (PNum 0)
   \<and> row_cells (title_id_map (columns archive_other)) rec_zero =
        [\<lparr>column_id = 1, cvalue = PStr ''J1''\<rparr>, \<lparr>column_id = 2, cvalue = PStr ''A''\<rparr>,
         \<lparr>column_id = 3, cvalue = PStr ''WR1''\<rparr>]
   \<and> new_sheet_rows (title_id_map (columns archive_other)) [rec_zero] = Inl TypeError
   \<and> main P0 fl0 now0 True cl_cancel = DryRunReport [rec_zero]
   \<and> main P0 fl0 now0 False cl_cancel = AppendFailed TypeError"
proof -
  have z: "map_of rec_zero ''PROMAX'' = Some (PNum 0)"
    by (simp add: rec_zero_def consolidated_record_def)
  have c: "consolidate_all fl0 (grouped_records (data_frame (pull_all P0 fl0 now0 cl_cancel [s_extra])))
             = Inr [rec_zero]"
    by (simp add: pull_cancel frames_of_recs groups_of_recs consolidate_cancel)
  have e: "\<not> df_empty (pull_all P0 fl0 now0 cl_cancel [s_extra])"
    by (rule pull_all_not_df_empty) (simp add: pull_cancel)
  have d: "new_rows_binding cl_cancel [rec_zero] = Some [rec_zero]"
    by (simp add: new_rows_binding_def dedup_against_archive_def keys_cancel
        new_consolidated_rows_def key_rec_zero)
  have a: "append_to_archive cl_cancel [rec_zero] = AppendFailed TypeError"
    by (simp add: append_to_archive_def cancel_reads sdk_Row_def)
  have m: "main P0 fl0 now0 dry_run cl_cancel = archive_operation dry_run cl_cancel [rec_zero]"
    for dry_run
    using e by (simp add: main_def matching_cancel c d)
  show ?thesis
    by (simp add: consolidate_cancel z rec_zero_cells sdk_Row_def m archive_operation_def a)
qed

theorem zero_total_record_is_not_appended_witness:
  "main P0 fl0 now0 False cl_cancel \<noteq> Appended [[\<lparr>column_id = 1, cvalue = PStr ''J1''\<rparr>,
      \<lparr>column_id = 2, cvalue = PStr ''A''\<rparr>, \<lparr>column_id = 3, cvalue = PStr ''WR1''\<rparr>]] 1"
  using zero_total_record_is_not_appended by simp


section \<open>Properties of the latest member\<close>

lemma max_from_scan:
  fixes rk :: "pyval \<Rightarrow> 'b::linorder"
  assumes "\<forall>x\<in>set (m # xs). \<forall>y\<in>set (m # xs).
             py_gt (date_key x) (date_key y) = Inr (rk (date_key y) < rk (date_key x))"
      and "\<forall>x\<in>set pre0. rk (date_key x) < rk (date_key m)"
      and "\<forall>x\<in>set mid0. rk (date_key x) \<le> rk (date_key m)"
  shows "\<exists>pre m' post. pre0 @ m # mid0 @ xs = pre @ m' # post \<and> max_from m xs = Inr m'
           \<and> (\<forall>x\<in>set pre. rk (date_key x) < rk (date_key m'))
           \<and> (\<forall>x\<in>set post. rk (date_key x) \<le> rk (date_key m'))"
  using assms
proof (induction xs arbitrary: m pre0 mid0)
  case Nil
  then show ?case by auto
next
  case (Cons x xs)
  have g: "py_gt (date_key x) (date_key m) = Inr (rk (date_key m) < rk (date_key x))"
    using Cons.prems(1) by simp
  show ?case
  proof (cases "rk (date_key m) < rk (date_key x)")
    case True
    have c: "\<forall>a\<in>set (x # xs). \<forall>b\<in>set (x # xs).
               py_gt (date_key a) (date_key b) = Inr (rk (date_key b) < rk (date_key a))"
      using Cons.prems(1) by simp
    have p: "\<forall>a\<in>set (pre0 @ m # mid0). rk (date_key a) < rk (date_key x)"
      using Cons.prems(2,3) True by fastforce
    have e: "\<forall>a\<in>set ([]::pydict list). rk (date_key a) \<le> rk (date_key x)"
      by simp
    from Cons.IH [OF c p e] obtain pre m' post where
      r: "(pre0 @ m # mid0) @ x # [] @ xs = pre @ m' # post" "max_from x xs = Inr m'"
         "\<forall>a\<in>set pre. rk (date_key a) < rk (date_key m')"
         "\<forall>a\<in>set post. rk (date_key a) \<le> rk (date_key m')"
      by blast
    have "max_from m (x # xs) = Inr m'"
      using g True r(2) by simp
    moreover have "pre0 @ m # mid0 @ x # xs = pre @ m' # post"
      using r(1) by simp
    ultimately show ?thesis using r(3,4) by blast
  next
    case False
    have c: "\<forall>a\<in>set (m # xs). \<forall>b\<in>set (m # xs).
               py_gt (date_key a) (date_key b) = Inr (rk (date_key b) < rk (date_key a))"
      using Cons.prems(1) by simp
    have e: "\<forall>a\<in>set (mid0 @ [x]). rk (date_key a) \<le> rk (date_key m)"
      using Cons.prems(3) False by auto
    from Cons.IH [OF c Cons.prems(2) e] obtain pre m' post where
      r: "pre0 @ m # (mid0 @ [x]) @ xs = pre @ m' # post" "max_from m xs = Inr m'"
         "\<forall>a\<in>set pre. rk (date_key a) < rk (date_key m')"
         "\<forall>a\<in>set post. rk (date_key a) \<le> rk (date_key m')"
      by blast
    have "max_from m (x # xs) = Inr m'"
      using g False r(2) by simp
    moreover have "pre0 @ m # mid0 @ x # xs = pre @ m' # post"
      using r(1) by simp
    ultimately show ?thesis using r(3,4) by blast
  qed
qed

lemma latest_record_ranked:
  fixes rk :: "pyval \<Rightarrow> 'b::linorder"
  assumes ne: "grp \<noteq> []"
      and cmp: "\<forall>x\<in>set grp. \<forall>y\<in>set grp.
             py_gt (date_key x) (date_key y) = Inr (rk (date_key y) < rk (date_key x))"
  shows "\<exists>pre m post. grp = pre @ m # post \<and> latest_record grp = Inr m
           \<and> (\<forall>x\<in>set pre. py_gt (date_key m) (date_key x) = Inr True)
           \<and> (\<forall>x\<in>set post. py_gt (date_key x) (date_key m) = Inr False)"
proof -
  from ne obtain m0 xs where grp: "grp = m0 # xs" by (cases grp) auto
  have c: "\<forall>x\<in>set (m0 # xs). \<forall>y\<in>set (m0 # xs).
             py_gt (date_key x) (date_key y) = Inr (rk (date_key y) < rk (date_key x))"
    using cmp by (simp only: grp)
  have p: "\<forall>x\<in>set ([]::pydict list). rk (date_key x) < rk (date_key m0)" by simp
  have e: "\<forall>x\<in>set ([]::pydict list). rk (date_key x) \<le> rk (date_key m0)" by simp
  from max_from_scan [OF c p e] obtain pre m post where
    r: "m0 # xs = pre @ m # post" "max_from m0 xs = Inr m"
       "\<forall>x\<in>set pre. rk (date_key x) < rk (date_key m)"
       "\<forall>x\<in>set post. rk (date_key x) \<le> rk (date_key m)"
    by auto
  have mem: "m \<in> set grp" "set pre \<subseteq> set grp" "set post \<subseteq> set grp"
    using r(1) by (auto simp: grp)
  have a: "\<forall>x\<in>set pre. py_gt (date_key m) (date_key x) = Inr True"
    using cmp mem r(3) by auto
  have b: "\<forall>x\<in>set post. py_gt (date_key x) (date_key m) = Inr False"
    using cmp mem r(4) by (auto simp: not_less)
  have l: "latest_record grp = Inr m"
    using r(2) by (simp add: grp)
  have d: "grp = pre @ m # post"
    using r(1) by (simp only: grp)
  from d l a b show ?thesis by blast
qed

lemma latest_record_comparable:
  assumes "grp \<noteq> []"
      and "list_all (\<lambda>x. is_str (date_key x)) grp \<or> list_all (\<lambda>x. is_num (date_key x)) grp"
  shows "\<exists>pre m post. grp = pre @ m # post \<and> latest_record grp = Inr m
           \<and> (\<forall>x\<in>set pre. py_gt (date_key m) (date_key x) = Inr True)
           \<and> (\<forall>x\<in>set post. py_gt (date_key x) (date_key m) = Inr False)"
  using assms(2)
proof
  assume s: "list_all (\<lambda>x. is_str (date_key x)) grp"
  have "\<forall>x\<in>set grp. \<forall>y\<in>set grp. py_gt (date_key x) (date_key y)
          = Inr ((case date_key y of PStr t \<Rightarrow> t | _ \<Rightarrow> []) < (case date_key x of PStr t \<Rightarrow> t | _ \<Rightarrow> []))"
  proof (intro ballI)
    fix x y assume "x \<in> set grp" "y \<in> set grp"
    with s have "is_str (date_key x)" "is_str (date_key y)"
      by (auto simp: list_all_iff)
    then show "py_gt (date_key x) (date_key y)
          = Inr ((case date_key y of PStr t \<Rightarrow> t | _ \<Rightarrow> []) < (case date_key x of PStr t \<Rightarrow> t | _ \<Rightarrow> []))"
      by (cases "date_key x"; cases "date_key y") simp_all
  qed
  from latest_record_ranked [OF assms(1), of "\<lambda>v. case v of PStr t \<Rightarrow> t | _ \<Rightarrow> []", OF this]
  show ?thesis .
next
  assume s: "list_all (\<lambda>x. is_num (date_key x)) grp"
  have "\<forall>x\<in>set grp. \<forall>y\<in>set grp. py_gt (date_key x) (date_key y)
          = Inr ((case date_key y of PNum t \<Rightarrow> t | _ \<Rightarrow> 0) < (case date_key x of PNum t \<Rightarrow> t | _ \<Rightarrow> 0))"
  proof (intro ballI)
    fix x y assume "x \<in> set grp" "y \<in> set grp"
    with s have "is_num (date_key x)" "is_num (date_key y)"
      by (auto simp: list_all_iff)
    then show "py_gt (date_key x) (date_key y)
          = Inr ((case date_key y of PNum t \<Rightarrow> t | _ \<Rightarrow> 0) < (case date_key x of PNum t \<Rightarrow> t | _ \<Rightarrow> 0))"
      by (cases "date_key x"; cases "date_key y") simp_all
  qed
  from latest_record_ranked [OF assms(1), of "\<lambda>v. case v of PNum t \<Rightarrow> t | _ \<Rightarrow> 0", OF this]
  show ?thesis .
qed


lemma consolidated_record_field:
  "c \<in> set copied_fields \<Longrightarrow>
     map_of (consolidated_record total_sum job_num foreman work_release latest) c
       = Some (dict_get latest c (PStr []))"
  by (auto simp: copied_fields_def consolidated_record_def)

lemma consolidated_record_key:
  "map_of (consolidated_record total_sum job_num foreman work_release latest) ''Job Number''
     = Some job_num"
  "map_of (consolidated_record total_sum job_num foreman work_release latest) ''Foreman''
     = Some foreman"
  "map_of (consolidated_record total_sum job_num foreman work_release latest) ''Work Release''
     = Some work_release"
  by (simp_all add: consolidated_record_def)

text \<open>
  C6, as amended. For every group that the grouping makes of the rows of the frame of a
  run, if the reference dates of its members are all strings or all numbers, the
  loop body produces the consolidated record; its key fields are the three components of
  the group's key; and each of the ten non-summed fields is the field of one member, the
  first of those whose reference date is greatest in the raw order of the values (every
  member before it has a strictly smaller date, no member after it a greater one).
\<close>

theorem latest_member_fields:
  assumes "(key, grp) \<in> set (grouped_records (data_frame (pull_all P fl now cl ms)))"
      and "list_all (\<lambda>x. is_str (date_key x)) grp \<or> list_all (\<lambda>x. is_num (date_key x)) grp"
  shows "\<exists>pre m post job_num foreman work_release rec.
           grp = pre @ m # post
         \<and> (\<forall>x\<in>set pre. py_gt (date_key m) (date_key x) = Inr True)
         \<and> (\<forall>x\<in>set post. py_gt (date_key x) (date_key m) = Inr False)
         \<and> key = [job_num, foreman, work_release]
         \<and> consolidate fl (key, grp) = Inr rec
         \<and> map_of rec ''Job Number'' = Some job_num
         \<and> map_of rec ''Foreman'' = Some foreman
         \<and> map_of rec ''Work Release'' = Some work_release
         \<and> (\<forall>c\<in>set copied_fields. map_of rec c = map_of m c)"
proof -
  note grp = group_of_frame_rows [OF assms(1)]
  from latest_record_comparable [OF grp(1) assms(2)] obtain pre m post where
    split: "grp = pre @ m # post" and latest: "latest_record grp = Inr m"
    and before: "\<forall>x\<in>set pre. py_gt (date_key m) (date_key x) = Inr True"
    and after: "\<forall>x\<in>set post. py_gt (date_key x) (date_key m) = Inr False"
    by blast
  have mem: "m \<in> set grp"
    by (simp add: split)
  with grp(3) have m: "m \<in> set (data_frame (pull_all P fl now cl ms))"
    by blast
  from mem grp(2) have "key = key_of unique_key_cols m"
    by auto
  then obtain job_num foreman work_release where key: "key = [job_num, foreman, work_release]"
    by (simp add: key_of_def unique_key_cols_def)
  obtain total_sum where total: "total_promax fl grp = Inr total_sum"
    using total_promax_of_frame_rows(1) [OF assms(1)] by blast
  define rec where "rec = consolidated_record total_sum job_num foreman work_release m"
  have c: "consolidate fl (key, grp) = Inr rec"
    by (simp add: consolidate_def key total latest rec_def)
  have f: "\<forall>c\<in>set copied_fields. map_of rec c = map_of m c"
    by (simp add: rec_def consolidated_record_field frame_row_has_field [OF m])
  have k: "map_of rec ''Job Number'' = Some job_num" "map_of rec ''Foreman'' = Some foreman"
    "map_of rec ''Work Release'' = Some work_release"
    by (simp_all only: rec_def consolidated_record_key)
  from split before after key c k f show ?thesis
    by blast
qed

lemma matching_with_source:
  "get_matching_sheets (with_source sheet_mixed cl0) REFERENCE_SHEET_ID = Inr [s_extra]"
  by (simp add: get_matching_sheets_def with_source_reads)
     (simp add: with_source_def sheet_mixed_def sheet_defs)

theorem latest_member_fields_witness:
  "(key_j1, [rec_a, rec_b])
     \<in> set (grouped_records (data_frame (pull_all P0 fl0 now0 (with_source sheet_two cl0) [s_extra])))
   \<and> list_all (\<lambda>x. is_str (date_key x)) [rec_a, rec_b]
   \<and> latest_record [rec_a, rec_b] = Inr rec_a
   \<and> py_gt (date_key rec_b) (date_key rec_a) = Inr False
   \<and> (\<exists>rec. consolidate fl0 (key_j1, [rec_a, rec_b]) = Inr rec
         \<and> map_of rec ''Job Number'' = Some (PStr ''J1'')
         \<and> map_of rec ''Work Order'' = map_of rec_a ''Work Order''
         \<and> map_of rec ''Work Order'' = Some (PStr ''WO-1''))"
proof -
  have g: "(key_j1, [rec_a, rec_b])
     \<in> set (grouped_records (data_frame (pull_all P0 fl0 now0 (with_source sheet_two cl0) [s_extra])))"
    by (simp add: pull_two frames_of_recs groups_of_recs)
  have h: "list_all (\<lambda>x. is_str (date_key x)) [rec_a, rec_b]
             \<or> list_all (\<lambda>x. is_num (date_key x)) [rec_a, rec_b]"
    by (simp add: dates_of_recs)
  have l: "latest_record [rec_a, rec_b] = Inr rec_a"
    by (simp add: dates_of_recs)
  have w: "map_of rec_a ''Work Order'' = Some (PStr ''WO-1'')"
    by (simp add: rec_a_def out_row_def COLUMN_MAP_def row_get_def row_of_def)
  have f: "''Work Order'' \<in> set copied_fields"
    by (simp add: copied_fields_def)
  from latest_member_fields [OF g h] obtain rec m where
    c: "consolidate fl0 (key_j1, [rec_a, rec_b]) = Inr rec"
    and "\<forall>c\<in>set copied_fields. map_of rec c = map_of m c"
    by blast
  from c consolidate_two have rec: "rec = consolidated_record (PNum 150) (PStr ''J1'') (PStr ''A'') (PStr ''WR1'') rec_a"
    by simp
  have "map_of rec ''Work Order'' = map_of rec_a ''Work Order''"
    using w by (simp add: rec consolidated_record_def dict_get_def)
  moreover have "map_of rec ''Job Number'' = Some (PStr ''J1'')"
    by (simp add: rec consolidated_record_def)
  ultimately show ?thesis
    using g l c w by (simp add: dates_of_recs)
qed

text \<open>
  C6, as stated, fails on a group whose members carry reference dates of different
  kinds: the rows dated '2024-01-03' and 20240101 both pass the filter and fall into the
  group (J1, A, WR1), the comparison of line 311 raises \<^verbatim>\<open>TypeError\<close>, no consolidated
  record is made and the exception leaves \<^verbatim>\<open>main\<close>.
\<close>

theorem mixed_dates_counterexample:
  "(key_j1, [rec_s, rec_n])
     \<in> set (grouped_records (data_frame (pull_all P0 fl0 now0 (with_source sheet_mixed cl0) [s_extra])))
   \<and> consolidate fl0 (key_j1, [rec_s, rec_n]) = Inl TypeError
   \<and> main P0 fl0 now0 True (with_source sheet_mixed cl0) = Uncaught TypeError"
proof -
  have g: "grouped_records (data_frame (pull_all P0 fl0 now0 (with_source sheet_mixed cl0) [s_extra]))
             = [(key_j1, [rec_s, rec_n])]"
    by (simp add: pull_mixed frames_of_recs groups_of_recs)
  have c: "consolidate fl0 (key_j1, [rec_s, rec_n]) = Inl TypeError"
    by (simp add: consolidate_def key_j1_def totals_of_recs dates_of_recs)
  have e: "\<not> df_empty (pull_all P0 fl0 now0 (with_source sheet_mixed cl0) [s_extra])"
    by (rule pull_all_not_df_empty) (simp add: pull_mixed)
  have m: "main P0 fl0 now0 True (with_source sheet_mixed cl0) = Uncaught TypeError"
    using e by (simp add: main_def matching_with_source pull_mixed frames_of_recs groups_of_recs c)
  from g c m show ?thesis by simp
qed



section \<open>Empty key cells in a numeric column\<close>

lemma out_row_job:
  "out_row (row_job job) =
     [(''PROMAX'', PNum 100), (''Job Number'', job), (''Work Order'', PStr []),
      (''Work Release'', PStr ''WR1''), (''Start Date'', PStr []), (''Scope Number'', PStr []),
      (''Foreman'', PStr ''A''), (''Location'', PStr []), (''Crew'', PStr []),
      (''% of Completion'', PStr []), (''Weekly Reference Logged Date'', PStr ''2024-01-03''),
      (''Expected Time of Completion'', PStr []), (''Snapshot Date'', PStr []),
      (''Work Request #'', PStr [])]"
  by (simp add: out_row_def COLUMN_MAP_def row_get_def row_job_def)

lemma frame_of_jobs:
  "data_frame [out_row (row_job (PNum 7)), out_row (row_job PNone), out_row (row_job PNone)]
     = [out_row (row_job (PNum 7)), out_row (row_job PNaN), out_row (row_job PNaN)]"
proof -
  have c: "df_columns [out_row (row_job (PNum 7)), out_row (row_job PNone), out_row (row_job PNone)]
             = map fst COLUMN_MAP"
    by (rule df_columns_uniform) (simp_all add: out_row_keys)
  show ?thesis
    unfolding data_frame_def c
    by (simp add: COLUMN_MAP_def out_row_job df_raw_def df_value_def numeric_column_def)
qed

text \<open>
  The two rows with an empty "Job #" cell beside a numeric one get \<^verbatim>\<open>nan\<close> as their job
  number in the frame, and each of them is a group of its own.
\<close>

lemma empty_keys_make_groups_of_their_own:
  "map fst (grouped_records
      (data_frame [out_row (row_job (PNum 7)), out_row (row_job PNone), out_row (row_job PNone)]))
     = [[PNum 7, PStr ''A'', PStr ''WR1''], [PNaN, PStr ''A'', PStr ''WR1''],
        [PNaN, PStr ''A'', PStr ''WR1'']]"
  unfolding frame_of_jobs
  by (simp add: grouped_records_def key_of_def unique_key_cols_def dict_get_def
      out_row_job key_eq_def)

end
